theory Spec2Isabelle
  imports Complex_Main "HOL-Library.Char_ord" "HOL-Library.List_Lexorder" "HOL-Library.Word"
begin

section \<open>Python values held in the table\<close>

text \<open>
  A cell of the data frame holds a Python object: a string, an integer or a float. A float
  is a finite number, an infinity or NaN (what \<^verbatim>\<open>pd.read_csv\<close> puts in an empty cell).
  Finite floats are idealised as real numbers: the rounding of binary floating point is
  not modelled, only the values the arithmetic aims at.
\<close>

datatype pyfloat = Fin real | PInf | NInf | NaN

datatype pyval = PStr string | PInt int | PFloat pyfloat

datatype error =
    FileNotFoundError | ValueError | TypeError | ZeroDivisionError | NameError
  | AttributeError | RecursionError | IndexError | OSError | ParserError

datatype tone_method = Random | Brightness

text \<open>The parsed command line (\<^verbatim>\<open>parse_args\<close>, lines 41-64): one field per option.\<close>

record args =
  inp :: string
  outp :: string
  seed :: int
  ambiguous_rate :: real
  uncertain_rate :: real
  prefer_not_rate :: real
  hi_conf_range :: string
  mid_conf_range :: string
  lo_conf_range :: string
  lowconf_threshold :: real
  skin_tone_method :: tone_method
  skin_bins :: int
  marker_rate :: real
  overwrite :: bool
  dry_run :: bool

text \<open>
  A grayscale image as \<^verbatim>\<open>Image.open(p).convert("L")\<close> returns it: its size and one
  byte per pixel.
\<close>

record image =
  im_w :: nat
  im_h :: nat
  im_px :: "nat \<Rightarrow> nat \<Rightarrow> 8 word"

text \<open>
  A generator is the sequence of raw outcomes it will still produce; a library call takes
  the first and leaves the rest. Any sequence is allowed, so every behaviour of the real
  generators is covered.
\<close>

type_synonym rng = "nat \<Rightarrow> nat"

text \<open>
  A data frame: its column names in order, and its rows. A row maps a column name to the
  cell; only the names in \<open>columns\<close> are cells of the table.
\<close>

type_synonym row = "string \<Rightarrow> pyval"

record dataframe =
  columns :: "string list"
  rows :: "row list"

text \<open>
  What the script takes from its libraries and from the machine it runs on: the two seeded
  generators, the text of a float and the float of a text (for \<^verbatim>\<open>float\<close> and for
  \<^verbatim>\<open>pd.to_numeric\<close>), whether PIL was imported, the file system and the image decoder,
  the CSV reader and writer.
\<close>

record env =
  py_seeded :: "int \<Rightarrow> rng"
  np_seeded :: "int \<Rightarrow> rng"
  float_repr :: "real \<Rightarrow> string"
  float_of_str :: "string \<Rightarrow> pyfloat option"
  numeric_of_str :: "string \<Rightarrow> pyfloat option"
  PIL_OK :: bool
  path_exists :: "string \<Rightarrow> bool"
  image_open :: "string \<Rightarrow> image option"
  read_csv :: "string \<Rightarrow> error + dataframe"
  mkdir_fails :: "string \<Rightarrow> bool"
  to_csv_fails :: "string \<Rightarrow> bool"

section \<open>Strings and conversions\<close>

definition is_space :: "char \<Rightarrow> bool" where
  "is_space c = (of_char c \<in> {9, 10, 11, 12, 13, 28, 29, 30, 31, 32, 133, 160 :: nat})"

definition strip :: "string \<Rightarrow> string" where
  "strip s = rev (dropWhile is_space (rev (dropWhile is_space s)))"

text \<open>\<^verbatim>\<open>str.lower\<close> on the letters A to Z; other characters are left as they are.\<close>

definition lower_char :: "char \<Rightarrow> char" where
  "lower_char c =
     (case map_of (zip ''ABCDEFGHIJKLMNOPQRSTUVWXYZ'' ''abcdefghijklmnopqrstuvwxyz'') c of
        None \<Rightarrow> c
      | Some l \<Rightarrow> l)"

definition lower :: "string \<Rightarrow> string" where
  "lower s = map lower_char s"

fun split_on :: "char \<Rightarrow> string \<Rightarrow> string list" where
  "split_on c [] = [[]]"
| "split_on c (x # xs) =
     (if x = c then [] # split_on c xs
      else (case split_on c xs of [] \<Rightarrow> [[x]] | w # ws \<Rightarrow> (x # w) # ws))"

fun join :: "string \<Rightarrow> string list \<Rightarrow> string" where
  "join sep [] = []"
| "join sep [x] = x"
| "join sep (x # y # ys) = x @ sep @ join sep (y # ys)"

definition digit_char :: "nat \<Rightarrow> char" where
  "digit_char d = ''0123456789'' ! d"

fun str_nat :: "nat \<Rightarrow> string" where
  "str_nat n = (if n < 10 then [digit_char n] else str_nat (n div 10) @ [digit_char (n mod 10)])"

declare str_nat.simps [simp del]

definition str_int :: "int \<Rightarrow> string" where
  "str_int i = (if i < 0 then CHR ''-'' # str_nat (nat (- i)) else str_nat (nat i))"

text \<open>\<^verbatim>\<open>str(x)\<close> of a cell.\<close>

fun py_str :: "env \<Rightarrow> pyval \<Rightarrow> string" where
  "py_str e (PStr s) = s"
| "py_str e (PInt i) = str_int i"
| "py_str e (PFloat (Fin r)) = float_repr e r"
| "py_str e (PFloat PInf) = ''inf''"
| "py_str e (PFloat NInf) = ''-inf''"
| "py_str e (PFloat NaN) = ''nan''"

text \<open>\<^verbatim>\<open>float(x)\<close> of a cell: a text that is no number raises ValueError.\<close>

fun py_float :: "env \<Rightarrow> pyval \<Rightarrow> error + pyfloat" where
  "py_float e (PStr s) = (case float_of_str e s of None \<Rightarrow> Inl ValueError | Some f \<Rightarrow> Inr f)"
| "py_float e (PInt i) = Inr (Fin (of_int i))"
| "py_float e (PFloat f) = Inr f"

text \<open>\<^verbatim>\<open>x == 1\<close> for a cell.\<close>

fun eq_one :: "pyval \<Rightarrow> bool" where
  "eq_one (PInt i) = (i = 1)"
| "eq_one (PFloat (Fin r)) = (r = 1)"
| "eq_one _ = False"

text \<open>\<^verbatim>\<open>x < t\<close> for a float and a finite bound: NaN compares false.\<close>

fun fl_less :: "pyfloat \<Rightarrow> real \<Rightarrow> bool" where
  "fl_less (Fin r) t = (r < t)"
| "fl_less NInf t = True"
| "fl_less PInf t = False"
| "fl_less NaN t = False"

text \<open>Float arithmetic on the values above, as IEEE 754 fixes it for infinities and NaN.\<close>

fun fl_neg :: "pyfloat \<Rightarrow> pyfloat" where
  "fl_neg (Fin r) = Fin (- r)"
| "fl_neg PInf = NInf"
| "fl_neg NInf = PInf"
| "fl_neg NaN = NaN"

fun fl_add :: "pyfloat \<Rightarrow> pyfloat \<Rightarrow> pyfloat" where
  "fl_add (Fin a) (Fin b) = Fin (a + b)"
| "fl_add NaN _ = NaN"
| "fl_add _ NaN = NaN"
| "fl_add PInf NInf = NaN"
| "fl_add NInf PInf = NaN"
| "fl_add PInf _ = PInf"
| "fl_add NInf _ = NInf"
| "fl_add _ PInf = PInf"
| "fl_add _ NInf = NInf"

text \<open>The product of a float with a finite factor (the draw of \<^verbatim>\<open>uniform\<close>).\<close>

fun fl_scale :: "pyfloat \<Rightarrow> real \<Rightarrow> pyfloat" where
  "fl_scale (Fin a) u = Fin (a * u)"
| "fl_scale NaN u = NaN"
| "fl_scale PInf u = (if u = 0 then NaN else if 0 < u then PInf else NInf)"
| "fl_scale NInf u = (if u = 0 then NaN else if 0 < u then NInf else PInf)"

text \<open>
  \<^verbatim>\<open>round(x, 3)\<close>: to the nearest multiple of 1/1000, a tie to the even one; infinities
  and NaN round to themselves.
\<close>

definition round_half_even :: "real \<Rightarrow> int" where
  "round_half_even x =
     (let f = \<lfloor>x\<rfloor>; d = x - of_int f
      in if d < 1/2 then f else if 1/2 < d then f + 1 else if even f then f else f + 1)"

fun round3 :: "pyfloat \<Rightarrow> pyfloat" where
  "round3 (Fin r) = Fin (of_int (round_half_even (r * 1000)) / 1000)"
| "round3 f = f"

section \<open>The generators\<close>

definition rng_next :: "rng \<Rightarrow> rng" where
  "rng_next g = (\<lambda>n. g (Suc n))"

text \<open>\<^verbatim>\<open>rng.random()\<close>: a 53-bit integer over \<open>2^53\<close>, so a number in \<open>[0, 1)\<close>.\<close>

definition rng_random :: "rng \<Rightarrow> real \<times> rng" where
  "rng_random g = (of_nat (g 0 mod 9007199254740992) / 9007199254740992, rng_next g)"

text \<open>\<^verbatim>\<open>rng.uniform(a, b)\<close> is \<^verbatim>\<open>a + (b - a) * self.random()\<close>.\<close>

definition rng_uniform :: "rng \<Rightarrow> pyfloat \<Rightarrow> pyfloat \<Rightarrow> pyfloat \<times> rng" where
  "rng_uniform g a b =
     (let (u, g1) = rng_random g in (fl_add a (fl_scale (fl_add b (fl_neg a)) u), g1))"

text \<open>\<^verbatim>\<open>rng.choice(seq)\<close>: an index below the length; IndexError on an empty sequence.\<close>

definition rng_choice :: "rng \<Rightarrow> 'a list \<Rightarrow> error + ('a \<times> rng)" where
  "rng_choice g xs =
     (if xs = [] then Inl IndexError else Inr (xs ! (g 0 mod length xs), rng_next g))"

fun cumsum :: "real \<Rightarrow> real list \<Rightarrow> real list" where
  "cumsum acc [] = []"
| "cumsum acc (x # xs) = (acc + x) # cumsum (acc + x) xs"

text \<open>
  \<^verbatim>\<open>np.random.choice(a, p=p)\<close>: the population must not be empty and \<open>p\<close> must have its
  size, hold no negative entry and sum to one (ValueError otherwise, before anything is
  drawn); then one uniform draw is looked up in the cumulative sums, normalised by the
  last, and the entry at the first sum above the draw is returned.
\<close>

definition np_choice :: "rng \<Rightarrow> int list \<Rightarrow> real list \<Rightarrow> error + (int \<times> rng)" where
  "np_choice g a p =
     (if a = [] then Inl ValueError
      else if length p \<noteq> length a then Inl ValueError
      else if list_ex (\<lambda>x. x < 0) p then Inl ValueError
      else if sum_list p \<noteq> 1 then Inl ValueError
      else (let (u, g1) = rng_random g;
                cdf = map (\<lambda>c. c / last (cumsum 0 p)) (cumsum 0 p);
                idx = length (takeWhile (\<lambda>c. c \<le> u) cdf)
            in if idx < length a then Inr (a ! idx, g1) else Inl IndexError))"

section \<open>The helpers of the script\<close>

definition FF_CLASSES :: "string list" where
  "FF_CLASSES = [''White'', ''Black'', ''EastAsian'', ''SouthAsian'', ''SoutheastAsian'',
                 ''MiddleEastern'', ''Latino'']"

definition ADJACENT_PAIRS :: "(string \<times> string) list" where
  "ADJACENT_PAIRS =
     [(''MiddleEastern'', ''SouthAsian''),
      (''EastAsian'', ''SoutheastAsian''),
      (''Latino'', ''White''),
      (''Latino'', ''MiddleEastern''),
      (''SouthAsian'', ''SoutheastAsian'')]"

text \<open>\<^verbatim>\<open>urange\<close> (lines 66-68): the two floats of a text \<^verbatim>\<open>"a,b"\<close>.\<close>

definition urange :: "env \<Rightarrow> string \<Rightarrow> error + (pyfloat \<times> pyfloat)" where
  "urange e s =
     (case split_on CHR '','' s of
        [a, b] \<Rightarrow>
          (case float_of_str e a of
             None \<Rightarrow> Inl ValueError
           | Some x \<Rightarrow>
               (case float_of_str e b of None \<Rightarrow> Inl ValueError | Some y \<Rightarrow> Inr (x, y)))
      | _ \<Rightarrow> Inl ValueError)"

text \<open>\<^verbatim>\<open>safe_col\<close> (lines 70-73): a missing column is added, the default in every row.\<close>

definition safe_col :: "dataframe \<Rightarrow> string \<Rightarrow> pyval \<Rightarrow> dataframe" where
  "safe_col d c dflt =
     (if c \<in> set (columns d) then d
      else d\<lparr>columns := columns d @ [c], rows := map (\<lambda>r. r(c := dflt)) (rows d)\<rparr>)"

text \<open>\<^verbatim>\<open>tuple(sorted(p))\<close> of a pair of strings.\<close>

definition sorted_pair :: "string \<times> string \<Rightarrow> string \<times> string" where
  "sorted_pair p = (if snd p < fst p then (snd p, fst p) else p)"

text \<open>\<^verbatim>\<open>choose_multilabel\<close> (lines 75-87).\<close>

definition choose_multilabel :: "rng \<Rightarrow> string \<Rightarrow> real \<Rightarrow> error + (string \<times> rng)" where
  "choose_multilabel g base_label rate =
     (if base_label \<notin> set FF_CLASSES then Inr (base_label, g)
      else
        (let candidates =
               map sorted_pair
                 (filter (\<lambda>p. base_label = fst p \<or> base_label = snd p) ADJACENT_PAIRS)
         in if candidates = [] then Inr (base_label, g)
            else
              (let (u, g1) = rng_random g
               in if u < rate
                  then
                    (case rng_choice g1 candidates of
                       Inl err \<Rightarrow> Inl err
                     | Inr ((a, b), g2) \<Rightarrow>
                         Inr (base_label @ ''|'' @ (if a = base_label then b else a), g2))
                  else Inr (base_label, g1))))"

text \<open>
  \<^verbatim>\<open>brightness_to_bin\<close> (lines 89-107). Every exception inside the \<^verbatim>\<open>try\<close> gives
  \<^verbatim>\<open>None\<close>; the mean of the central crop is exact here.
\<close>

definition crop_mean :: "image \<Rightarrow> real" where
  "crop_mean im =
     (let w = im_w im; h = im_h im;
          cw = max 8 (nat \<lfloor>real w * (6 / 10)\<rfloor>);
          ch = max 8 (nat \<lfloor>real h * (6 / 10)\<rfloor>);
          x0 = (w - cw) div 2;
          y0 = (h - ch) div 2
      in real (sum_list (map (\<lambda>y. sum_list (map (\<lambda>x. unat (im_px im x y)) [x0..<x0 + cw]))
                           [y0..<y0 + ch]))
         / real (cw * ch))"

definition np_clip :: "int \<Rightarrow> int \<Rightarrow> int \<Rightarrow> int" where
  "np_clip x lo hi = min (max x lo) hi"

definition brightness_to_bin :: "env \<Rightarrow> string \<Rightarrow> int \<Rightarrow> int option" where
  "brightness_to_bin e img_path bins =
     (if \<not> PIL_OK e then None
      else
        (case image_open e img_path of
           None \<Rightarrow> None
         | Some im \<Rightarrow>
             if im_w im < 10 \<or> im_h im < 10 then None
             else
               (let bright = crop_mean im / 255
                in Some (np_clip (\<lfloor>bright * of_int bins\<rfloor> + 1) 1 bins))))"

section \<open>The row loop of the first \<^verbatim>\<open>main\<close>\<close>

text \<open>
  The script defines \<^verbatim>\<open>main\<close> twice. The first definition (lines 109-296) holds the
  whole engine and is \<open>main_1\<close> here; the second (lines 298-308) replaces it in the
  module's namespace and is \<open>main_2\<close>.

  The state of the loop: the row of the table being written (\<^verbatim>\<open>df.at[i, ...]\<close>), the
  label \<^verbatim>\<open>ml\<close>, the generator \<^verbatim>\<open>rng\<close>, numpy's global generator and
  \<^verbatim>\<open>filled_counts\<close>. The row \<^verbatim>\<open>row\<close> that \<^verbatim>\<open>iterrows\<close> hands out is a copy
  taken before the row is written, and stays as it was.
\<close>

record rowst =
  cur_row :: row
  ml_val :: string
  rng_py :: rng
  rng_np :: rng
  filled_counts :: "string \<Rightarrow> nat"

type_synonym ranges = "(pyfloat \<times> pyfloat) \<times> (pyfloat \<times> pyfloat) \<times> (pyfloat \<times> pyfloat)"

definition set_cell :: "string \<Rightarrow> pyval \<Rightarrow> rowst \<Rightarrow> rowst" where
  "set_cell c v s = s\<lparr>cur_row := (cur_row s)(c := v)\<rparr>"

definition bump :: "string \<Rightarrow> rowst \<Rightarrow> rowst" where
  "bump c s = s\<lparr>filled_counts := (filled_counts s)(c := filled_counts s c + 1)\<rparr>"

text \<open>\<^verbatim>\<open>not str(x).strip()\<close>, the script's test for a blank cell.\<close>

definition blank :: "env \<Rightarrow> pyval \<Rightarrow> bool" where
  "blank e v = (strip (py_str e v) = [])"

text \<open>\<^verbatim>\<open>args.overwrite or not str(row[c]).strip()\<close>, the guard of every block.\<close>

definition must_fill :: "env \<Rightarrow> args \<Rightarrow> row \<Rightarrow> string \<Rightarrow> bool" where
  "must_fill e a row0 c = (overwrite a \<or> blank e (row0 c))"

definition has_sep :: "string \<Rightarrow> bool" where
  "has_sep s = (CHR ''|'' \<in> set s)"

text \<open>Lines 141-147.\<close>

definition fill_race_ml :: "env \<Rightarrow> args \<Rightarrow> row \<Rightarrow> rowst \<Rightarrow> error + rowst" where
  "fill_race_ml e a row0 s =
     (if must_fill e a row0 ''race_ml''
      then
        (case choose_multilabel (rng_py s) (py_str e (row0 ''race_cat'')) (ambiguous_rate a) of
           Inl err \<Rightarrow> Inl err
         | Inr (m, g) \<Rightarrow>
             Inr (bump ''race_ml'' (set_cell ''race_ml'' (PStr m) (s\<lparr>ml_val := m, rng_py := g\<rparr>))))
      else Inr (s\<lparr>ml_val := py_str e (row0 ''race_ml'')\<rparr>))"

text \<open>Lines 149-152.\<close>

definition fill_ambiguous_mixed :: "env \<Rightarrow> args \<Rightarrow> row \<Rightarrow> rowst \<Rightarrow> rowst" where
  "fill_ambiguous_mixed e a row0 s =
     (if must_fill e a row0 ''ambiguous_mixed''
      then bump ''ambiguous_mixed''
             (set_cell ''ambiguous_mixed'' (PInt (if has_sep (ml_val s) then 1 else 0)) s)
      else s)"

text \<open>Lines 154-157.\<close>

definition fill_prefer_not_to_label :: "env \<Rightarrow> args \<Rightarrow> row \<Rightarrow> rowst \<Rightarrow> rowst" where
  "fill_prefer_not_to_label e a row0 s =
     (if must_fill e a row0 ''prefer_not_to_label''
      then
        (let (u, g) = rng_random (rng_py s)
         in bump ''prefer_not_to_label''
              (set_cell ''prefer_not_to_label'' (PInt (if u < prefer_not_rate a then 1 else 0))
                 (s\<lparr>rng_py := g\<rparr>)))
      else s)"

text \<open>Lines 160-171.\<close>

definition fill_conf_race :: "env \<Rightarrow> args \<Rightarrow> ranges \<Rightarrow> row \<Rightarrow> rowst \<Rightarrow> rowst" where
  "fill_conf_race e a R row0 s =
     (case R of
        ((loL, loH), (midL, midH), (hiL, hiH)) \<Rightarrow>
          if must_fill e a row0 ''conf_race''
          then
            (let (conf, g) =
                   (if eq_one (cur_row s ''prefer_not_to_label'')
                    then rng_uniform (rng_py s) loL loH
                    else if has_sep (ml_val s) then rng_uniform (rng_py s) midL midH
                    else
                      (let (u, g1) = rng_random (rng_py s)
                       in if uncertain_rate a < u then rng_uniform g1 hiL hiH
                          else rng_uniform g1 loL loH))
             in bump ''conf_race''
                  (set_cell ''conf_race'' (PFloat (round3 conf)) (s\<lparr>rng_py := g\<rparr>)))
          else s)"

text \<open>
  Line 172: the race confidence as a float, read from the row being written; 0.5 stands
  in when the cell is blank.
\<close>

definition conf_val :: "env \<Rightarrow> row \<Rightarrow> error + pyfloat" where
  "conf_val e r =
     (if blank e (r ''conf_race'') then Inr (Fin (1/2)) else py_float e (r ''conf_race''))"

text \<open>
  Lines 172-177. \<^verbatim>\<open>or\<close> takes the draw only when the confidence is not below the
  threshold.
\<close>

definition fill_unknown_uncertain :: "env \<Rightarrow> args \<Rightarrow> row \<Rightarrow> rowst \<Rightarrow> error + rowst" where
  "fill_unknown_uncertain e a row0 s =
     (case conf_val e (cur_row s) of
        Inl err \<Rightarrow> Inl err
      | Inr cv \<Rightarrow>
          if must_fill e a row0 ''unknown_uncertain''
          then
            (if fl_less cv (lowconf_threshold a)
             then Inr (bump ''unknown_uncertain'' (set_cell ''unknown_uncertain'' (PInt 1) s))
             else
               (let (u, g) = rng_random (rng_py s)
                in Inr (bump ''unknown_uncertain''
                          (set_cell ''unknown_uncertain''
                             (PInt (if u < uncertain_rate a then 1 else 0))
                             (s\<lparr>rng_py := g\<rparr>)))))
          else Inr s)"

text \<open>Lines 179-192. \<^verbatim>\<open>and\<close> takes a draw only when the row qualifies.\<close>

definition fill_cultural_markers :: "env \<Rightarrow> args \<Rightarrow> row \<Rightarrow> rowst \<Rightarrow> rowst" where
  "fill_cultural_markers e a row0 s =
     (if must_fill e a row0 ''cultural_markers''
      then
        (let (m1, g1) =
               (if py_str e (row0 ''race_cat'') \<in> set [''MiddleEastern'', ''SouthAsian'']
                then (let (u, g) = rng_random (rng_py s)
                      in (if u < marker_rate a then [''religious_headwear''] else [], g))
                else ([], rng_py s));
             (m2, g2) =
               (if lower (py_str e (row0 ''gender_cat'')) \<in> set [''male'', ''m'']
                then (let (u, g) = rng_random g1
                      in (if u < marker_rate a then [''beard''] else [], g))
                else ([], g1));
             (u3, g3) = rng_random g2;
             m3 = (if u3 < marker_rate a / 2 then [''piercing_visible''] else []);
             markers = (if m1 @ m2 @ m3 = [] then [''none''] else m1 @ m2 @ m3)
         in bump ''cultural_markers''
              (set_cell ''cultural_markers'' (PStr (join ''|'' (sort (remdups markers))))
                 (s\<lparr>rng_py := g3\<rparr>)))
      else s)"

text \<open>
  Lines 198-205: the path of the image. A path is kept as its text; a relative one is
  tried under three roots, and the first that exists is taken.
\<close>

definition is_absolute :: "string \<Rightarrow> bool" where
  "is_absolute p = (case p of [] \<Rightarrow> False | c # _ \<Rightarrow> c = CHR ''/'')"

definition path_join :: "string \<Rightarrow> string \<Rightarrow> string" where
  "path_join dir p = (if dir = ''.'' then p else dir @ ''/'' @ p)"

definition resolve_path :: "env \<Rightarrow> string \<Rightarrow> string" where
  "resolve_path e p =
     (if is_absolute p then p
      else
        (case find (\<lambda>dir. path_exists e (path_join dir p)) [''.'', ''data/images'', ''data''] of
           None \<Rightarrow> p
         | Some dir \<Rightarrow> path_join dir p))"

text \<open>
  Lines 208-215, the random strategy. The default of \<^verbatim>\<open>dict.get\<close> is computed before
  the lookup, so \<^verbatim>\<open>1/args.skin_bins\<close> is evaluated for every race.
\<close>

definition random_bin :: "rng \<Rightarrow> string \<Rightarrow> int \<Rightarrow> error + (int \<times> rng)" where
  "random_bin g base_race bins =
     (if bins = 0 then Inl ZeroDivisionError
      else
        (let weights =
               (if base_race = ''Black''
                then [25/100, 22/100, 18/100, 14/100, 10/100, 7/100, 4/100]
                else if base_race = ''White''
                then [4/100, 7/100, 10/100, 14/100, 18/100, 22/100, 25/100]
                else replicate (nat bins) (1 / of_int bins));
             choices = [1..bins]
         in np_choice g choices (map (\<lambda>w. w / sum_list weights) weights)))"

text \<open>Lines 196-206: the brightness strategy, when it is configured and can be tried.\<close>

definition brightness_attempt :: "env \<Rightarrow> args \<Rightarrow> row \<Rightarrow> error + int option" where
  "brightness_attempt e a row0 =
     (if skin_tone_method a = Brightness \<and> PIL_OK e \<and> \<not> blank e (row0 ''rel_path'')
      then
        (case row0 ''rel_path'' of
           PStr p \<Rightarrow> Inr (brightness_to_bin e (resolve_path e p) (skin_bins a))
         | _ \<Rightarrow> Inl TypeError)
      else Inr None)"

text \<open>Lines 194-217.\<close>

definition fill_skin_tone_bin :: "env \<Rightarrow> args \<Rightarrow> row \<Rightarrow> rowst \<Rightarrow> error + rowst" where
  "fill_skin_tone_bin e a row0 s =
     (if must_fill e a row0 ''skin_tone_bin''
      then
        (case brightness_attempt e a row0 of
           Inl err \<Rightarrow> Inl err
         | Inr (Some b) \<Rightarrow>
             Inr (bump ''skin_tone_bin'' (set_cell ''skin_tone_bin'' (PStr (str_int b)) s))
         | Inr None \<Rightarrow>
             (case random_bin (rng_np s) (py_str e (row0 ''race_cat'')) (skin_bins a) of
                Inl err \<Rightarrow> Inl err
              | Inr (b, g) \<Rightarrow>
                  Inr (bump ''skin_tone_bin''
                         (set_cell ''skin_tone_bin'' (PStr (str_int b)) (s\<lparr>rng_np := g\<rparr>)))))
      else Inr s)"

text \<open>\<^verbatim>\<open>x not in ["", "Unknown"]\<close> for a cell.\<close>

fun not_blank_or_unknown :: "pyval \<Rightarrow> bool" where
  "not_blank_or_unknown (PStr s) = (s \<noteq> [] \<and> s \<noteq> ''Unknown'')"
| "not_blank_or_unknown _ = True"

text \<open>Lines 219-226.\<close>

definition fill_conf_skin :: "env \<Rightarrow> args \<Rightarrow> row \<Rightarrow> rowst \<Rightarrow> rowst" where
  "fill_conf_skin e a row0 s =
     (if must_fill e a row0 ''conf_skin''
      then
        (let (c, g) =
               (if skin_tone_method a = Brightness \<and> PIL_OK e
                    \<and> not_blank_or_unknown (cur_row s ''skin_tone_bin'')
                then rng_uniform (rng_py s) (Fin (6/10)) (Fin (9/10))
                else rng_uniform (rng_py s) (Fin (5/10)) (Fin (8/10)))
         in bump ''conf_skin'' (set_cell ''conf_skin'' (PFloat (round3 c)) (s\<lparr>rng_py := g\<rparr>)))
      else s)"

text \<open>Lines 228-235.\<close>

definition fill_conf_gender :: "env \<Rightarrow> args \<Rightarrow> row \<Rightarrow> rowst \<Rightarrow> rowst" where
  "fill_conf_gender e a row0 s =
     (if must_fill e a row0 ''conf_gender''
      then
        (let (c, g) =
               (if lower (strip (py_str e (row0 ''gender_cat'')))
                     \<in> set [''male'', ''m'', ''female'', ''f'']
                then rng_uniform (rng_py s) (Fin (8/10)) (Fin 1)
                else rng_uniform (rng_py s) (Fin (4/10)) (Fin (7/10)))
         in bump ''conf_gender''
              (set_cell ''conf_gender'' (PFloat (round3 c)) (s\<lparr>rng_py := g\<rparr>)))
      else s)"

text \<open>Lines 237-248: the count goes up only when a note was written.\<close>

definition fill_annotation_notes :: "env \<Rightarrow> args \<Rightarrow> row \<Rightarrow> rowst \<Rightarrow> rowst" where
  "fill_annotation_notes e a row0 s =
     (if must_fill e a row0 ''annotation_notes''
      then
        (let notes =
               (if has_sep (ml_val s) then [''auto: multi-heritage heuristic''] else [])
               @ (if eq_one (cur_row s ''unknown_uncertain'')
                  then [''auto: low confidence / uncertain''] else [])
               @ (if eq_one (cur_row s ''prefer_not_to_label'')
                  then [''auto: prefer-not-to-label set''] else []);
             s1 = set_cell ''annotation_notes'' (PStr (join ''; '' notes)) s
         in if notes = [] then s1 else bump ''annotation_notes'' s1)
      else s)"

text \<open>
  Lines 140-171: the blocks the loop runs on a row before it comes to the uncertainty
  flag. The state they leave holds the generator the flag's draw is taken from.
\<close>

definition before_unknown_uncertain ::
  "env \<Rightarrow> args \<Rightarrow> ranges \<Rightarrow> row \<Rightarrow> rowst \<Rightarrow> error + rowst" where
  "before_unknown_uncertain e a R row0 s =
     (case fill_race_ml e a row0 (s\<lparr>cur_row := row0\<rparr>) of
        Inl err \<Rightarrow> Inl err
      | Inr s1 \<Rightarrow>
          Inr (fill_conf_race e a R row0
                 (fill_prefer_not_to_label e a row0 (fill_ambiguous_mixed e a row0 s1))))"

text \<open>The body of the loop (lines 139-248) for one row.\<close>

definition process_row :: "env \<Rightarrow> args \<Rightarrow> ranges \<Rightarrow> row \<Rightarrow> rowst \<Rightarrow> error + rowst" where
  "process_row e a R row0 s =
     (case fill_race_ml e a row0 (s\<lparr>cur_row := row0\<rparr>) of
        Inl err \<Rightarrow> Inl err
      | Inr s1 \<Rightarrow>
          (case fill_unknown_uncertain e a row0
                  (fill_conf_race e a R row0
                     (fill_prefer_not_to_label e a row0 (fill_ambiguous_mixed e a row0 s1))) of
             Inl err \<Rightarrow> Inl err
           | Inr s5 \<Rightarrow>
               (case fill_skin_tone_bin e a row0 (fill_cultural_markers e a row0 s5) of
                  Inl err \<Rightarrow> Inl err
                | Inr s7 \<Rightarrow>
                    Inr (fill_annotation_notes e a row0
                           (fill_conf_gender e a row0 (fill_conf_skin e a row0 s7))))))"

fun process_rows :: "env \<Rightarrow> args \<Rightarrow> ranges \<Rightarrow> row list \<Rightarrow> rowst \<Rightarrow> error + (row list \<times> rowst)" where
  "process_rows e a R [] s = Inr ([], s)"
| "process_rows e a R (r # rs) s =
     (case process_row e a R r s of
        Inl err \<Rightarrow> Inl err
      | Inr s1 \<Rightarrow>
          (case process_rows e a R rs s1 of
             Inl err \<Rightarrow> Inl err
           | Inr (out, s2) \<Rightarrow> Inr (cur_row s1 # out, s2)))"

text \<open>Lines 120-135: the sixteen recognised columns, each added blank when missing.\<close>

definition recognised :: "string list" where
  "recognised =
     [''image_id'', ''rel_path'', ''race_cat'', ''gender_cat'', ''age_cat'', ''split'',
      ''race_ml'', ''skin_tone_bin'', ''cultural_markers'', ''ambiguous_mixed'',
      ''prefer_not_to_label'', ''unknown_uncertain'', ''conf_race'', ''conf_gender'',
      ''conf_skin'', ''annotation_notes'']"

definition ensure_columns :: "dataframe \<Rightarrow> dataframe" where
  "ensure_columns d = foldl (\<lambda>d c. safe_col d c (PStr [])) d recognised"

text \<open>The state before the first row; \<^verbatim>\<open>filled_counts\<close> starts at zero (line 137).\<close>

definition init_state :: "rng \<Rightarrow> rng \<Rightarrow> rowst" where
  "init_state g npg =
     \<lparr>cur_row = (\<lambda>c. PStr []), ml_val = [], rng_py = g, rng_np = npg,
      filled_counts = (\<lambda>c. 0)\<rparr>"

text \<open>Lines 120-248: the table as the loop leaves it.\<close>

definition fill_table ::
  "env \<Rightarrow> args \<Rightarrow> ranges \<Rightarrow> rowst \<Rightarrow> dataframe \<Rightarrow> error + (dataframe \<times> rowst)" where
  "fill_table e a R s d =
     (case process_rows e a R (rows (ensure_columns d)) s of
        Inl err \<Rightarrow> Inl err
      | Inr (out, s1) \<Rightarrow> Inr ((ensure_columns d)\<lparr>rows := out\<rparr>, s1))"

section \<open>The two definitions of \<^verbatim>\<open>main\<close> and the entry point\<close>

text \<open>
  What a run leaves behind: the table it computed without writing (\<^verbatim>\<open>--dry-run\<close>), the
  table it wrote, or \<^verbatim>\<open>sys.exit(1)\<close> after a failed write. What it prints is kept as a
  list of blocks of lines.
\<close>

datatype outcome = DryRun dataframe | Saved dataframe | SaveFailed

datatype printed =
    Banner | ErrorLine error | SummaryHeader | SummaryTable | SummaryCut nat
  | DryRunNotice | SuccessNotice | SaveErrorLine

text \<open>
  \<^verbatim>\<open>pd.to_numeric(x, errors='coerce')\<close> on one cell: a text that is no number becomes
  NaN.
\<close>

fun to_numeric :: "env \<Rightarrow> pyval \<Rightarrow> pyfloat" where
  "to_numeric e (PStr s) = (case numeric_of_str e s of None \<Rightarrow> NaN | Some f \<Rightarrow> f)"
| "to_numeric e (PInt i) = Fin (of_int i)"
| "to_numeric e (PFloat f) = f"

fun is_inf :: "pyfloat \<Rightarrow> bool" where
  "is_inf PInf = True"
| "is_inf NInf = True"
| "is_inf f = False"

text \<open>
  \<^verbatim>\<open>.fillna(0).astype(int)\<close> on a column (lines 264-266): NaN has become 0, and the cast
  raises when a value is infinite.
\<close>

definition int_castable :: "env \<Rightarrow> row list \<Rightarrow> string \<Rightarrow> bool" where
  "int_castable e rs c = list_all (\<lambda>r. \<not> is_inf (to_numeric e (r c))) rs"

text \<open>The columns of the three flag-rate lines, in the order they are printed.\<close>

definition flag_columns :: "string list" where
  "flag_columns = [''ambiguous_mixed'', ''unknown_uncertain'', ''prefer_not_to_label'']"

text \<open>
  The first \<^verbatim>\<open>main\<close> (lines 109-296). \<open>np0\<close> is the state of numpy's global generator
  when the function is entered; line 112 replaces it, and raises ValueError for a seed
  outside \<open>[0, 2^32 - 1]\<close>. The summary divides by the number of rows (line 258), and each
  of its three flag-rate lines casts a column to integers (lines 264-266):
  \<open>SummaryCut k\<close> is the summary cut off after \<open>k\<close> of these lines, \<open>SummaryTable\<close> the
  whole of lines 257-271. Writing to the standard output is taken to succeed.
\<close>

definition main_1 :: "env \<Rightarrow> args \<Rightarrow> rng \<Rightarrow> printed list \<times> (error + outcome)" where
  "main_1 e a np0 =
     (let s0 = (init_state (py_seeded e (seed a)) np0)\<lparr>rng_np := np_seeded e (seed a)\<rparr>
      in if seed a < 0 \<or> 4294967295 < seed a then ([], Inl ValueError)
         else
        (case urange e (lo_conf_range a) of
           Inl err \<Rightarrow> ([], Inl err)
         | Inr lo \<Rightarrow>
        (case urange e (mid_conf_range a) of
           Inl err \<Rightarrow> ([], Inl err)
         | Inr mid \<Rightarrow>
        (case urange e (hi_conf_range a) of
           Inl err \<Rightarrow> ([], Inl err)
         | Inr hi \<Rightarrow>
        (case read_csv e (inp a) of
           Inl err \<Rightarrow> ([], Inl err)
         | Inr d \<Rightarrow>
        (case fill_table e a (lo, mid, hi) s0 d of
           Inl err \<Rightarrow> ([], Inl err)
         | Inr (d1, s1) \<Rightarrow>
             if rows d1 = [] then ([SummaryHeader], Inl ZeroDivisionError)
             else if length (takeWhile (int_castable e (rows d1)) flag_columns)
                       < length flag_columns
             then ([SummaryHeader,
                    SummaryCut (length (takeWhile (int_castable e (rows d1)) flag_columns))],
                   Inl ValueError)
             else if dry_run a
             then ([SummaryHeader, SummaryTable, DryRunNotice], Inr (DryRun d1))
             else if mkdir_fails e (outp a)
             then ([SummaryHeader, SummaryTable], Inl OSError)
             else if to_csv_fails e (outp a)
             then ([SummaryHeader, SummaryTable, SaveErrorLine], Inr SaveFailed)
             else ([SummaryHeader, SummaryTable, SuccessNotice], Inr (Saved d1))))))))"

text \<open>
  The functions the module binds, in the order of their \<^verbatim>\<open>def\<close> statements; a later
  binding of a name replaces an earlier one.
\<close>

datatype callee =
    Def_parse_args | Def_urange | Def_safe_col | Def_choose_multilabel
  | Def_brightness_to_bin | Def_main_1 | Def_main_2 | Def_generate_v3_metadata

definition module_defs :: "(string \<times> callee) list" where
  "module_defs =
     [(''parse_args'', Def_parse_args),
      (''urange'', Def_urange),
      (''safe_col'', Def_safe_col),
      (''choose_multilabel'', Def_choose_multilabel),
      (''brightness_to_bin'', Def_brightness_to_bin),
      (''main'', Def_main_1),
      (''main'', Def_main_2),
      (''generate_v3_metadata'', Def_generate_v3_metadata)]"

definition module_globals :: "string \<Rightarrow> callee option" where
  "module_globals = foldl (\<lambda>m kv. m(fst kv \<mapsto> snd kv)) Map.empty module_defs"

text \<open>
  What calling one of these functions with the single argument \<^verbatim>\<open>args\<close> does, as far
  as \<^verbatim>\<open>generate_v3_metadata\<close> can see: the functions without a parameter and those that
  need more reject the call, \<^verbatim>\<open>urange\<close> finds no \<^verbatim>\<open>split\<close>, \<^verbatim>\<open>brightness_to_bin\<close>
  swallows its failure, and \<^verbatim>\<open>generate_v3_metadata\<close> would call itself without end.
\<close>

fun call_with_args :: "callee \<Rightarrow> error + unit" where
  "call_with_args Def_parse_args = Inl TypeError"
| "call_with_args Def_urange = Inl AttributeError"
| "call_with_args Def_safe_col = Inl TypeError"
| "call_with_args Def_choose_multilabel = Inl TypeError"
| "call_with_args Def_brightness_to_bin = Inr ()"
| "call_with_args Def_main_1 = Inl TypeError"
| "call_with_args Def_main_2 = Inl TypeError"
| "call_with_args Def_generate_v3_metadata = Inl RecursionError"

text \<open>
  \<^verbatim>\<open>generate_v3_metadata\<close> (lines 310-324): the banner, the check that the input
  exists, and the call of the global name \<^verbatim>\<open>main_logic\<close>.
\<close>

definition generate_v3_metadata :: "env \<Rightarrow> args \<Rightarrow> printed list \<times> (error + unit)" where
  "generate_v3_metadata e a =
     ([Banner],
      if \<not> path_exists e (inp a) then Inl FileNotFoundError
      else
        (case module_globals ''main_logic'' of
           None \<Rightarrow> Inl NameError
         | Some f \<Rightarrow> call_with_args f))"

text \<open>
  The second \<^verbatim>\<open>main\<close> (lines 298-308), for a command line that parses: every exception
  is printed and turned into exit status 1.
\<close>

definition main_2 :: "env \<Rightarrow> args \<Rightarrow> printed list \<times> nat" where
  "main_2 e a =
     (case generate_v3_metadata e a of
        (out, Inl err) \<Rightarrow> (out @ [ErrorLine err], 1)
      | (out, Inr u) \<Rightarrow> (out, 0))"

text \<open>
  Lines 326-327: the script calls whatever the name \<^verbatim>\<open>main\<close> is bound to. The result
  is what was printed and the exit status; an exception that nothing catches ends the
  process with status 1.
\<close>

definition script :: "env \<Rightarrow> args \<Rightarrow> rng \<Rightarrow> printed list \<times> nat" where
  "script e a np0 =
     (case module_globals ''main'' of
        Some Def_main_2 \<Rightarrow> main_2 e a
      | Some Def_main_1 \<Rightarrow>
          (case main_1 e a np0 of
             (out, Inl err) \<Rightarrow> (out, 1)
           | (out, Inr SaveFailed) \<Rightarrow> (out, 1)
           | (out, Inr r) \<Rightarrow> (out, 0))
      | _ \<Rightarrow> ([], 1))"

section \<open>Predicates of the statements\<close>

text \<open>
  A confidence cell holds a finite float between two bounds that is a whole number of
  thousandths.
\<close>

fun conf_in :: "real \<Rightarrow> real \<Rightarrow> pyval \<Rightarrow> bool" where
  "conf_in lo hi (PFloat (Fin r)) = (lo \<le> r \<and> r \<le> hi \<and> of_int \<lfloor>r * 1000\<rfloor> = r * 1000)"
| "conf_in lo hi v = False"

fun in_unit :: "pyfloat \<Rightarrow> bool" where
  "in_unit (Fin r) = (0 \<le> r \<and> r \<le> 1)"
| "in_unit f = False"




text \<open>The ten columns the loop fills.\<close>

definition derived :: "string list" where
  "derived =
     [''race_ml'', ''ambiguous_mixed'', ''prefer_not_to_label'', ''conf_race'',
      ''unknown_uncertain'', ''cultural_markers'', ''skin_tone_bin'', ''conf_skin'',
      ''conf_gender'', ''annotation_notes'']"

text \<open>
  A row is filled when none of its derived cells is blank and its race confidence
  converts to a float.
\<close>

definition filled :: "env \<Rightarrow> row \<Rightarrow> bool" where
  "filled e r =
     (list_all (\<lambda>c. \<not> blank e (r c)) derived
      \<and> (case py_float e (r ''conf_race'') of Inl err \<Rightarrow> False | Inr f \<Rightarrow> True))"

text \<open>No flag cell of the table is an infinity when read as a number.\<close>

definition flags_castable :: "env \<Rightarrow> dataframe \<Rightarrow> bool" where
  "flags_castable e d = list_all (int_castable e (rows d)) flag_columns"

section \<open>Concrete inputs\<close>

text \<open>
  A machine on which every draw of either generator is 3/4, PIL is installed, no image
  file exists, and \<^verbatim>\<open>labels.csv\<close> holds the table \<open>d\<close>; the default command line; and
  a row with every cell filled.
\<close>

definition fx_draws :: rng where
  "fx_draws = (\<lambda>n. 6755399441055744)"

definition zero_draws :: rng where
  "zero_draws = (\<lambda>n. 0)"

definition odd_draws :: rng where
  "odd_draws = (\<lambda>n. 1)"

definition fx_floats :: "string \<Rightarrow> pyfloat option" where
  "fx_floats =
     map_of [(''0.30'', Fin (30/100)), (''0.55'', Fin (55/100)), (''0.80'', Fin (80/100)),
             (''1.00'', Fin 1), (''2'', Fin 2), (''3'', Fin 3)]"

definition fx_env :: "dataframe \<Rightarrow> env" where
  "fx_env d =
     \<lparr>py_seeded = (\<lambda>sd. fx_draws), np_seeded = (\<lambda>sd. fx_draws),
      float_repr = (\<lambda>r. ''0.9''), float_of_str = fx_floats, numeric_of_str = fx_floats,
      PIL_OK = True, path_exists = (\<lambda>p. p = ''labels.csv''), image_open = (\<lambda>p. None),
      read_csv = (\<lambda>p. if p = ''labels.csv'' then Inr d else Inl FileNotFoundError),
      mkdir_fails = (\<lambda>p. False), to_csv_fails = (\<lambda>p. False)\<rparr>"

definition fx_args :: args where
  "fx_args =
     \<lparr>inp = ''labels.csv'', outp = ''labels.csv'', seed = 42,
      ambiguous_rate = 15/100, uncertain_rate = 10/100, prefer_not_rate = 1/100,
      hi_conf_range = ''0.80,1.00'', mid_conf_range = ''0.55,0.80'',
      lo_conf_range = ''0.30,0.55'', lowconf_threshold = 60/100,
      skin_tone_method = Random, skin_bins = 7, marker_rate = 12/100,
      overwrite = False, dry_run = False\<rparr>"

definition fx_ranges :: ranges where
  "fx_ranges =
     ((Fin (30/100), Fin (55/100)), (Fin (55/100), Fin (80/100)), (Fin (80/100), Fin 1))"

definition fx_row :: row where
  "fx_row =
     (\<lambda>c. PStr [])
       (''image_id'' := PStr ''img1'', ''rel_path'' := PStr ''missing.jpg'',
        ''race_cat'' := PStr ''Black'', ''gender_cat'' := PStr ''Male'',
        ''age_cat'' := PStr ''20-29'', ''split'' := PStr ''train'',
        ''race_ml'' := PStr ''Black'', ''skin_tone_bin'' := PStr ''3'',
        ''cultural_markers'' := PStr ''none'', ''ambiguous_mixed'' := PInt 0,
        ''prefer_not_to_label'' := PInt 0, ''unknown_uncertain'' := PInt 0,
        ''conf_race'' := PFloat (Fin (9/10)), ''conf_gender'' := PFloat (Fin (9/10)),
        ''conf_skin'' := PFloat (Fin (7/10)), ''annotation_notes'' := PStr ''checked'')"

text \<open>The table of one row with the sixteen recognised columns.\<close>

definition fx_table :: "row \<Rightarrow> dataframe" where
  "fx_table r = \<lparr>columns = recognised, rows = [r]\<rparr>"

definition fx_state :: rowst where
  "fx_state = init_state fx_draws fx_draws"

text \<open>Rows with one or two cells changed, and command lines with one option changed.\<close>

definition row_blank_skin :: row where
  "row_blank_skin = fx_row(''skin_tone_bin'' := PStr [])"

definition row_blank_skin_conf :: row where
  "row_blank_skin_conf = fx_row(''skin_tone_bin'' := PStr [], ''conf_skin'' := PStr [])"

definition row_mixed_prefilled :: row where
  "row_mixed_prefilled = fx_row(''race_ml'' := PStr ''Latino|White'')"

definition row_mixed_blank_flag :: row where
  "row_mixed_blank_flag =
     fx_row(''race_ml'' := PStr ''Latino|White'', ''ambiguous_mixed'' := PStr [])"



definition row_MiddleEastern :: row where
  "row_MiddleEastern = fx_row(''race_cat'' := PStr ''MiddleEastern'', ''race_ml'' := PStr [])"

definition row_low_conf :: row where
  "row_low_conf =
     fx_row(''unknown_uncertain'' := PStr [], ''conf_race'' := PFloat (Fin (1/2)))"

definition row_inf_flag :: row where
  "row_inf_flag = fx_row(''ambiguous_mixed'' := PFloat PInf)"

definition row_blank_flag :: row where
  "row_blank_flag = fx_row(''unknown_uncertain'' := PStr [])"

definition row_text_conf :: row where
  "row_text_conf = fx_row(''conf_race'' := PStr ''high'')"

definition table_no_split :: dataframe where
  "table_no_split =
     \<lparr>columns =
        [''image_id'', ''rel_path'', ''race_cat'', ''gender_cat'', ''age_cat'',
         ''race_ml'', ''skin_tone_bin'', ''cultural_markers'', ''ambiguous_mixed'',
         ''prefer_not_to_label'', ''unknown_uncertain'', ''conf_race'', ''conf_gender'',
         ''conf_skin'', ''annotation_notes''],
      rows = [fx_row]\<rparr>"

definition args_five_bins :: args where
  "args_five_bins = fx_args\<lparr>skin_bins := 5\<rparr>"

definition args_brightness :: args where
  "args_brightness = fx_args\<lparr>skin_tone_method := Brightness\<rparr>"

definition args_brightness_five :: args where
  "args_brightness_five = fx_args\<lparr>skin_tone_method := Brightness, skin_bins := 5\<rparr>"


definition args_rate_one :: args where
  "args_rate_one = fx_args\<lparr>ambiguous_rate := 1\<rparr>"

section \<open>What the entry point does\<close>

lemma module_globals_main_logic: "module_globals ''main_logic'' = None"
  by (simp add: module_globals_def module_defs_def)

lemma module_globals_main: "module_globals ''main'' = Some Def_main_2"
  by (simp add: module_globals_def module_defs_def)

text \<open>
  C2. The claim: with an input table that exists and an output that can be written the
  program ends with success after a summary, and it ends with a non-zero status exactly
  when the input is missing or the write fails. The script does otherwise: the name
  \<^verbatim>\<open>main\<close> is bound to the second definition, which reaches \<^verbatim>\<open>main_logic(args)\<close>,
  a name the module never binds. Whatever the machine and the command line, the run
  prints the banner and one error line and ends with status 1: NameError when the input
  exists, FileNotFoundError when it does not. No summary is printed and nothing is
  written.
\<close>

theorem script_always_exits_1:
  "script e a np0 =
     ([Banner, ErrorLine (if path_exists e (inp a) then NameError else FileNotFoundError)], 1)"
  by (simp add: script_def module_globals_main main_2_def generate_v3_metadata_def
      module_globals_main_logic)

section \<open>Determinism of the engine\<close>

text \<open>
  C3. Two runs of the engine on the same machine state (the input table, the image files
  and the libraries), with the same configuration and so the same seed, end the same way:
  they print the same, and they raise the same error or leave the same table. The only
  state a run could inherit is numpy's global generator, and line 112 reseeds it before
  anything is drawn, so its earlier state \<open>np0\<close> has no effect.
\<close>

theorem main_1_deterministic: "main_1 e a np0 = main_1 e a np0'"
  by (simp add: main_1_def init_state_def)

section \<open>Draws, ranges and rounding\<close>

lemma rng_random_nonneg: "0 \<le> fst (rng_random g)"
  by (simp add: rng_random_def)

lemma rng_random_less_1: "fst (rng_random g) < 1"
proof -
  have "g 0 mod 9007199254740992 < 9007199254740992" by simp
  then have "real (g 0 mod 9007199254740992) < 9007199254740992"
    by (metis of_nat_less_iff of_nat_numeral)
  then show ?thesis by (simp add: rng_random_def)
qed

lemma rng_uniform_Fin:
  "rng_uniform g (Fin x) (Fin y) = (Fin (x + (y - x) * fst (rng_random g)), snd (rng_random g))"
  by (simp add: rng_uniform_def split: prod.splits)

lemma convex_between:
  fixes u :: real
  assumes "0 \<le> u" "u < 1" "lo \<le> x" "x \<le> hi" "lo \<le> y" "y \<le> hi"
  shows "lo \<le> x + (y - x) * u \<and> x + (y - x) * u \<le> hi"
proof -
  have eq: "x + (y - x) * u = (1 - u) * x + u * y" by (simp add: algebra_simps)
  have "(1 - u) * lo \<le> (1 - u) * x" "u * lo \<le> u * y"
    using assms by (auto intro: mult_left_mono)
  then have l: "lo \<le> (1 - u) * x + u * y" by (simp add: algebra_simps)
  have "(1 - u) * x \<le> (1 - u) * hi" "u * y \<le> u * hi"
    using assms by (auto intro: mult_left_mono)
  then have h: "(1 - u) * x + u * y \<le> hi" by (simp add: algebra_simps)
  show ?thesis using l h eq by simp
qed

lemma round_half_even_bounds:
  assumes "of_int m \<le> y" "y \<le> of_int n"
  shows "m \<le> round_half_even y \<and> round_half_even y \<le> n"
proof -
  have f1: "m \<le> \<lfloor>y\<rfloor>" using assms(1) by (simp add: le_floor_iff)
  have f2: "\<lfloor>y\<rfloor> \<le> n" using assms(2) by (simp add: floor_le_iff) 
  show ?thesis
  proof (cases "y = of_int n")
    case True
    then show ?thesis using f1 by (simp add: round_half_even_def)
  next
    case False
    then have "y < of_int n" using assms(2) by simp
    then have "\<lfloor>y\<rfloor> < n" by (simp add: floor_less_iff)
    then show ?thesis using f1 by (auto simp: round_half_even_def Let_def)
  qed
qed

lemma round3_Fin_bounds:
  assumes "of_int m / 1000 \<le> x" "x \<le> of_int n / 1000"
  shows "\<exists>k. round3 (Fin x) = Fin (of_int k / 1000) \<and> m \<le> k \<and> k \<le> n"
proof -
  have "of_int m \<le> x * 1000" "x * 1000 \<le> of_int n" using assms by (simp_all add: field_simps)
  then have "m \<le> round_half_even (x * 1000) \<and> round_half_even (x * 1000) \<le> n"
    by (rule round_half_even_bounds)
  then show ?thesis by auto
qed



section \<open>What each block of the loop leaves alone\<close>

lemmas block_defs = fill_race_ml_def fill_ambiguous_mixed_def fill_prefer_not_to_label_def
  fill_conf_race_def fill_unknown_uncertain_def fill_cultural_markers_def
  fill_skin_tone_bin_def fill_conf_skin_def fill_conf_gender_def fill_annotation_notes_def

lemma rng_set_cell_bump [simp]:
  "rng_py (set_cell c v s) = rng_py s" "rng_np (set_cell c v s) = rng_np s"
  "rng_py (bump c s) = rng_py s" "rng_np (bump c s) = rng_np s"
  by (simp_all add: set_cell_def bump_def)

lemma cur_row_set_cell [simp]: "cur_row (set_cell c v s) = (cur_row s)(c := v)"
  by (simp add: set_cell_def)

lemma cur_row_bump [simp]: "cur_row (bump c s) = cur_row s"
  by (simp add: bump_def)

lemma ml_val_set_cell [simp]: "ml_val (set_cell c v s) = ml_val s"
  by (simp add: set_cell_def)

lemma ml_val_bump [simp]: "ml_val (bump c s) = ml_val s"
  by (simp add: bump_def)

lemma fill_race_ml_frame:
  assumes "fill_race_ml e a row0 s = Inr s1" "c \<noteq> ''race_ml''"
  shows "cur_row s1 c = cur_row s c"
  using assms by (auto simp: fill_race_ml_def split: if_splits sum.splits prod.splits)

lemma fill_race_ml_ml:
  assumes "fill_race_ml e a row0 s = Inr s1" "cur_row s = row0"
  shows "ml_val s1 = py_str e (cur_row s1 ''race_ml'')"
  using assms by (auto simp: fill_race_ml_def split: if_splits sum.splits prod.splits)

lemma fill_ambiguous_mixed_frame:
  "c \<noteq> ''ambiguous_mixed'' \<Longrightarrow> cur_row (fill_ambiguous_mixed e a row0 s) c = cur_row s c"
  by (simp add: fill_ambiguous_mixed_def)

lemma fill_ambiguous_mixed_ml [simp]: "ml_val (fill_ambiguous_mixed e a row0 s) = ml_val s"
  by (simp add: fill_ambiguous_mixed_def)

lemma fill_prefer_not_to_label_frame:
  "c \<noteq> ''prefer_not_to_label'' \<Longrightarrow> cur_row (fill_prefer_not_to_label e a row0 s) c = cur_row s c"
  by (simp add: fill_prefer_not_to_label_def split: prod.splits)

lemma fill_prefer_not_to_label_ml [simp]: "ml_val (fill_prefer_not_to_label e a row0 s) = ml_val s"
  by (simp add: fill_prefer_not_to_label_def split: prod.splits)

lemma fill_conf_race_frame:
  "c \<noteq> ''conf_race'' \<Longrightarrow> cur_row (fill_conf_race e a R row0 s) c = cur_row s c"
  by (simp add: fill_conf_race_def split: prod.splits)

lemma fill_conf_race_ml [simp]: "ml_val (fill_conf_race e a R row0 s) = ml_val s"
  by (simp add: fill_conf_race_def split: prod.splits)

lemma fill_unknown_uncertain_frame:
  assumes "fill_unknown_uncertain e a row0 s = Inr s1" "c \<noteq> ''unknown_uncertain''"
  shows "cur_row s1 c = cur_row s c"
  using assms by (auto simp: fill_unknown_uncertain_def split: if_splits sum.splits prod.splits)

lemma fill_unknown_uncertain_ml:
  assumes "fill_unknown_uncertain e a row0 s = Inr s1"
  shows "ml_val s1 = ml_val s"
  using assms by (auto simp: fill_unknown_uncertain_def split: if_splits sum.splits prod.splits)

lemma fill_cultural_markers_frame:
  "c \<noteq> ''cultural_markers'' \<Longrightarrow> cur_row (fill_cultural_markers e a row0 s) c = cur_row s c"
  by (simp add: fill_cultural_markers_def Let_def split: prod.splits)

lemma fill_cultural_markers_ml [simp]: "ml_val (fill_cultural_markers e a row0 s) = ml_val s"
  by (simp add: fill_cultural_markers_def Let_def split: prod.splits)

lemma fill_skin_tone_bin_frame:
  assumes "fill_skin_tone_bin e a row0 s = Inr s1" "c \<noteq> ''skin_tone_bin''"
  shows "cur_row s1 c = cur_row s c"
  using assms
  by (auto simp: fill_skin_tone_bin_def split: if_splits sum.splits prod.splits option.splits)

lemma fill_skin_tone_bin_ml:
  assumes "fill_skin_tone_bin e a row0 s = Inr s1"
  shows "ml_val s1 = ml_val s"
  using assms
  by (auto simp: fill_skin_tone_bin_def split: if_splits sum.splits prod.splits option.splits)

lemma fill_conf_skin_frame:
  "c \<noteq> ''conf_skin'' \<Longrightarrow> cur_row (fill_conf_skin e a row0 s) c = cur_row s c"
  by (simp add: fill_conf_skin_def split: prod.splits)

lemma fill_conf_skin_ml [simp]: "ml_val (fill_conf_skin e a row0 s) = ml_val s"
  by (simp add: fill_conf_skin_def split: prod.splits)

lemma fill_conf_gender_frame:
  "c \<noteq> ''conf_gender'' \<Longrightarrow> cur_row (fill_conf_gender e a row0 s) c = cur_row s c"
  by (simp add: fill_conf_gender_def split: prod.splits)

lemma fill_conf_gender_ml [simp]: "ml_val (fill_conf_gender e a row0 s) = ml_val s"
  by (simp add: fill_conf_gender_def split: prod.splits)

lemma fill_annotation_notes_frame:
  "c \<noteq> ''annotation_notes'' \<Longrightarrow> cur_row (fill_annotation_notes e a row0 s) c = cur_row s c"
  by (simp add: fill_annotation_notes_def Let_def)

lemma process_row_steps:
  assumes "process_row e a R row0 s = Inr s'"
  obtains s1 s5 s7 where
    "fill_race_ml e a row0 (s\<lparr>cur_row := row0\<rparr>) = Inr s1"
    "fill_unknown_uncertain e a row0
       (fill_conf_race e a R row0
          (fill_prefer_not_to_label e a row0 (fill_ambiguous_mixed e a row0 s1))) = Inr s5"
    "fill_skin_tone_bin e a row0 (fill_cultural_markers e a row0 s5) = Inr s7"
    "s' = fill_annotation_notes e a row0 (fill_conf_gender e a row0 (fill_conf_skin e a row0 s7))"
  using assms by (auto simp: process_row_def split: sum.splits)

lemma process_rows_nth:
  "process_rows e a R rs s = Inr (out, s') \<Longrightarrow>
     length out = length rs \<and>
     (\<forall>i<length rs. \<exists>si si'. process_row e a R (rs ! i) si = Inr si' \<and> out ! i = cur_row si')"
proof (induction rs arbitrary: s out)
  case Nil
  then show ?case by simp
next
  case (Cons r rs)
  from Cons.prems obtain s1 out1 where
    r: "process_row e a R r s = Inr s1" and
    rest: "process_rows e a R rs s1 = Inr (out1, s')" and
    out: "out = cur_row s1 # out1"
    by (auto split: sum.splits)
  from Cons.IH [OF rest] have len: "length out1 = length rs"
    and nth: "\<forall>i<length rs. \<exists>si si'. process_row e a R (rs ! i) si = Inr si' \<and> out1 ! i = cur_row si'"
    by auto
  show ?case
  proof (intro conjI allI impI)
    show "length out = length (r # rs)" using len out by simp
  next
    fix i assume i: "i < length (r # rs)"
    show "\<exists>si si'. process_row e a R ((r # rs) ! i) si = Inr si' \<and> out ! i = cur_row si'"
    proof (cases i)
      case 0
      then show ?thesis using r out by auto
    next
      case (Suc j)
      then have "j < length rs" using i by simp
      with nth obtain si si' where "process_row e a R (rs ! j) si = Inr si'" "out1 ! j = cur_row si'"
        by blast
      then show ?thesis using Suc out by auto
    qed
  qed
qed

lemma process_rows_nth_state:
  assumes "process_rows e a R rs s = Inr (out, s')" and "i < length rs"
  shows "\<exists>outi si si'. process_rows e a R (take i rs) s = Inr (outi, si)
           \<and> process_row e a R (rs ! i) si = Inr si' \<and> out ! i = cur_row si'"
  using assms
proof (induction rs arbitrary: s out i)
  case Nil
  then show ?case by simp
next
  case (Cons r rs)
  from Cons.prems(1) obtain sa outa where
    r: "process_row e a R r s = Inr sa" and
    rest: "process_rows e a R rs sa = Inr (outa, s')" and
    out: "out = cur_row sa # outa"
    by (auto split: sum.splits)
  show ?case
  proof (cases i)
    case 0
    then show ?thesis using r out by simp
  next
    case (Suc j)
    then have j: "j < length rs" using Cons.prems(2) by simp
    from Cons.IH [OF rest j] obtain outj sj sj' where
      t: "process_rows e a R (take j rs) sa = Inr (outj, sj)" and
      p: "process_row e a R (rs ! j) sj = Inr sj'" and
      c: "outa ! j = cur_row sj'" by blast
    have "process_rows e a R (take i (r # rs)) s = Inr (cur_row sa # outj, sj)"
      using Suc r t by simp
    then show ?thesis using p c out Suc by simp
  qed
qed

lemma length_rows_safe_col [simp]: "length (rows (safe_col d c v)) = length (rows d)"
  by (simp add: safe_col_def)

lemma length_rows_foldl_safe_col:
  "length (rows (foldl (\<lambda>d c. safe_col d c v) d cs)) = length (rows d)"
  by (induction cs arbitrary: d) simp_all

lemma length_rows_ensure_columns [simp]: "length (rows (ensure_columns d)) = length (rows d)"
  by (simp add: ensure_columns_def length_rows_foldl_safe_col)

lemma fill_table_nth:
  assumes "fill_table e a R s d = Inr (d', s')" "i < length (rows d)"
  shows "\<exists>si si'. process_row e a R (rows (ensure_columns d) ! i) si = Inr si'
           \<and> rows d' ! i = cur_row si'"
proof -
  from assms(1) obtain out where
    pr: "process_rows e a R (rows (ensure_columns d)) s = Inr (out, s')" and
    d': "d' = (ensure_columns d)\<lparr>rows := out\<rparr>"
    by (auto simp: fill_table_def split: sum.splits)
  from process_rows_nth [OF pr] assms(2) d' show ?thesis by auto
qed

lemma fill_table_nth_state:
  assumes "fill_table e a R s d = Inr (d', s')" "i < length (rows d)"
  shows "\<exists>outi si si'.
           process_rows e a R (take i (rows (ensure_columns d))) s = Inr (outi, si)
           \<and> process_row e a R (rows (ensure_columns d) ! i) si = Inr si'
           \<and> rows d' ! i = cur_row si'"
proof -
  from assms(1) obtain out where
    pr: "process_rows e a R (rows (ensure_columns d)) s = Inr (out, s')" and
    d': "d' = (ensure_columns d)\<lparr>rows := out\<rparr>"
    by (auto simp: fill_table_def split: sum.splits)
  have i: "i < length (rows (ensure_columns d))" using assms(2) by simp
  from process_rows_nth_state [OF pr i] d' show ?thesis by simp
qed

section \<open>One row through the loop\<close>

lemma process_row_ambiguous_mixed:
  assumes pr: "process_row e a R row0 s = Inr s'"
    and mf: "must_fill e a row0 ''ambiguous_mixed''"
  shows "cur_row s' ''ambiguous_mixed'' =
           PInt (if has_sep (py_str e (cur_row s' ''race_ml'')) then 1 else 0)"
proof -
  from pr obtain s1 s5 s7 where
    s1: "fill_race_ml e a row0 (s\<lparr>cur_row := row0\<rparr>) = Inr s1" and
    s5: "fill_unknown_uncertain e a row0
           (fill_conf_race e a R row0
              (fill_prefer_not_to_label e a row0 (fill_ambiguous_mixed e a row0 s1))) = Inr s5" and
    s7: "fill_skin_tone_bin e a row0 (fill_cultural_markers e a row0 s5) = Inr s7" and
    s': "s' = fill_annotation_notes e a row0 (fill_conf_gender e a row0 (fill_conf_skin e a row0 s7))"
    by (rule process_row_steps)
  have ml: "ml_val s1 = py_str e (cur_row s1 ''race_ml'')"
    using s1 by (rule fill_race_ml_ml) simp
  have amb2: "cur_row (fill_ambiguous_mixed e a row0 s1) ''ambiguous_mixed'' =
                PInt (if has_sep (ml_val s1) then 1 else 0)"
    using mf by (simp add: fill_ambiguous_mixed_def)
  have amb5: "cur_row s5 ''ambiguous_mixed'' = PInt (if has_sep (ml_val s1) then 1 else 0)"
    using fill_unknown_uncertain_frame [OF s5, of "''ambiguous_mixed''"] amb2
    by (simp add: fill_conf_race_frame fill_prefer_not_to_label_frame)
  have amb7: "cur_row s7 ''ambiguous_mixed'' = PInt (if has_sep (ml_val s1) then 1 else 0)"
    using fill_skin_tone_bin_frame [OF s7, of "''ambiguous_mixed''"] amb5
    by (simp add: fill_cultural_markers_frame)
  have amb: "cur_row s' ''ambiguous_mixed'' = PInt (if has_sep (ml_val s1) then 1 else 0)"
    using amb7 s'
    by (simp add: fill_annotation_notes_frame fill_conf_gender_frame fill_conf_skin_frame)
  have r5: "cur_row s5 ''race_ml'' = cur_row s1 ''race_ml''"
    using fill_unknown_uncertain_frame [OF s5, of "''race_ml''"]
    by (simp add: fill_conf_race_frame fill_prefer_not_to_label_frame fill_ambiguous_mixed_frame)
  have r7: "cur_row s7 ''race_ml'' = cur_row s1 ''race_ml''"
    using fill_skin_tone_bin_frame [OF s7, of "''race_ml''"] r5
    by (simp add: fill_cultural_markers_frame)
  have r: "cur_row s' ''race_ml'' = cur_row s1 ''race_ml''"
    using r7 s'
    by (simp add: fill_annotation_notes_frame fill_conf_gender_frame fill_conf_skin_frame)
  show ?thesis using amb r ml by simp
qed

lemma fill_race_ml_keep:
  assumes "fill_race_ml e a row0 s = Inr s1" "\<not> must_fill e a row0 c"
  shows "cur_row s1 c = cur_row s c"
proof (cases "c = ''race_ml''")
  case True
  then show ?thesis using assms by (auto simp: fill_race_ml_def)
next
  case False
  then show ?thesis using assms(1) by (rule fill_race_ml_frame [rotated])
qed

lemma fill_ambiguous_mixed_keep:
  "\<not> must_fill e a row0 c \<Longrightarrow> cur_row (fill_ambiguous_mixed e a row0 s) c = cur_row s c"
  by (cases "c = ''ambiguous_mixed''") (simp_all add: fill_ambiguous_mixed_def)

lemma fill_prefer_not_to_label_keep:
  "\<not> must_fill e a row0 c \<Longrightarrow> cur_row (fill_prefer_not_to_label e a row0 s) c = cur_row s c"
  by (cases "c = ''prefer_not_to_label''")
    (simp_all add: fill_prefer_not_to_label_def split: prod.splits)

lemma fill_conf_race_keep:
  "\<not> must_fill e a row0 c \<Longrightarrow> cur_row (fill_conf_race e a R row0 s) c = cur_row s c"
  by (cases "c = ''conf_race''") (simp_all add: fill_conf_race_def split: prod.splits)

lemma fill_unknown_uncertain_keep:
  assumes "fill_unknown_uncertain e a row0 s = Inr s1" "\<not> must_fill e a row0 c"
  shows "cur_row s1 c = cur_row s c"
proof (cases "c = ''unknown_uncertain''")
  case True
  then show ?thesis using assms by (auto simp: fill_unknown_uncertain_def split: sum.splits)
next
  case False
  then show ?thesis using assms(1) by (rule fill_unknown_uncertain_frame [rotated])
qed

lemma fill_cultural_markers_keep:
  "\<not> must_fill e a row0 c \<Longrightarrow> cur_row (fill_cultural_markers e a row0 s) c = cur_row s c"
  by (cases "c = ''cultural_markers''")
    (simp_all add: fill_cultural_markers_frame, simp add: fill_cultural_markers_def)

lemma fill_skin_tone_bin_keep:
  assumes "fill_skin_tone_bin e a row0 s = Inr s1" "\<not> must_fill e a row0 c"
  shows "cur_row s1 c = cur_row s c"
proof (cases "c = ''skin_tone_bin''")
  case True
  then show ?thesis using assms by (auto simp: fill_skin_tone_bin_def)
next
  case False
  then show ?thesis using assms(1) by (rule fill_skin_tone_bin_frame [rotated])
qed

lemma fill_conf_skin_keep:
  "\<not> must_fill e a row0 c \<Longrightarrow> cur_row (fill_conf_skin e a row0 s) c = cur_row s c"
  by (cases "c = ''conf_skin''") (simp_all add: fill_conf_skin_def split: prod.splits)

lemma fill_conf_gender_keep:
  "\<not> must_fill e a row0 c \<Longrightarrow> cur_row (fill_conf_gender e a row0 s) c = cur_row s c"
  by (cases "c = ''conf_gender''") (simp_all add: fill_conf_gender_def split: prod.splits)

lemma fill_annotation_notes_keep:
  "\<not> must_fill e a row0 c \<Longrightarrow> cur_row (fill_annotation_notes e a row0 s) c = cur_row s c"
  by (cases "c = ''annotation_notes''")
    (simp_all add: fill_annotation_notes_frame, simp add: fill_annotation_notes_def)

lemma process_row_untouched:
  assumes pr: "process_row e a R row0 s = Inr s'"
    and mf: "\<not> must_fill e a row0 c"
  shows "cur_row s' c = row0 c"
proof -
  from pr obtain s1 s5 s7 where
    s1: "fill_race_ml e a row0 (s\<lparr>cur_row := row0\<rparr>) = Inr s1" and
    s5: "fill_unknown_uncertain e a row0
           (fill_conf_race e a R row0
              (fill_prefer_not_to_label e a row0 (fill_ambiguous_mixed e a row0 s1))) = Inr s5" and
    s7: "fill_skin_tone_bin e a row0 (fill_cultural_markers e a row0 s5) = Inr s7" and
    s': "s' = fill_annotation_notes e a row0 (fill_conf_gender e a row0 (fill_conf_skin e a row0 s7))"
    by (rule process_row_steps)
  have c1: "cur_row s1 c = row0 c"
    using fill_race_ml_keep [OF s1 mf] by simp
  have c5: "cur_row s5 c = row0 c"
    using fill_unknown_uncertain_keep [OF s5 mf] c1 mf
    by (simp add: fill_conf_race_keep fill_prefer_not_to_label_keep fill_ambiguous_mixed_keep)
  have c7: "cur_row s7 c = row0 c"
    using fill_skin_tone_bin_keep [OF s7 mf] c5 mf by (simp add: fill_cultural_markers_keep)
  show ?thesis
    using c7 mf s'
    by (simp add: fill_annotation_notes_keep fill_conf_gender_keep fill_conf_skin_keep)
qed

lemma conf_val_cong: "r ''conf_race'' = r' ''conf_race'' \<Longrightarrow> conf_val e r = conf_val e r'"
  by (simp add: conf_val_def)

lemma fill_unknown_uncertain_cell:
  assumes f: "fill_unknown_uncertain e a row0 s = Inr sa"
    and mf: "must_fill e a row0 ''unknown_uncertain''"
  shows "\<exists>cv. conf_val e (cur_row s) = Inr cv \<and>
           cur_row sa ''unknown_uncertain'' =
             PInt (if fl_less cv (lowconf_threshold a)
                      \<or> fst (rng_random (rng_py s)) < uncertain_rate a then 1 else 0)
           \<and> rng_py sa = (if fl_less cv (lowconf_threshold a) then rng_py s
                           else snd (rng_random (rng_py s)))"
proof -
  from f obtain cv where cv: "conf_val e (cur_row s) = Inr cv"
    by (cases "conf_val e (cur_row s)") (simp_all add: fill_unknown_uncertain_def)
  obtain u g where r: "rng_random (rng_py s) = (u, g)" by (cases "rng_random (rng_py s)")
  have "cur_row sa ''unknown_uncertain'' =
          PInt (if fl_less cv (lowconf_threshold a) \<or> u < uncertain_rate a then 1 else 0)
        \<and> rng_py sa = (if fl_less cv (lowconf_threshold a) then rng_py s else g)"
  proof (cases "fl_less cv (lowconf_threshold a)")
    case True
    then have "sa = bump ''unknown_uncertain'' (set_cell ''unknown_uncertain'' (PInt 1) s)"
      using f mf cv by (simp add: fill_unknown_uncertain_def)
    then show ?thesis using True by simp
  next
    case False
    then have "sa = bump ''unknown_uncertain''
                     (set_cell ''unknown_uncertain''
                        (PInt (if u < uncertain_rate a then 1 else 0)) (s\<lparr>rng_py := g\<rparr>))"
      using f mf cv r by (simp add: fill_unknown_uncertain_def)
    then show ?thesis using False by simp
  qed
  then show ?thesis using cv r by simp
qed

lemma process_row_unknown_uncertain:
  assumes pr: "process_row e a R row0 s = Inr s'"
    and mf: "must_fill e a row0 ''unknown_uncertain''"
  shows "\<exists>s4 s5 cv.
           before_unknown_uncertain e a R row0 s = Inr s4
         \<and> fill_unknown_uncertain e a row0 s4 = Inr s5
         \<and> conf_val e (cur_row s') = Inr cv
         \<and> cur_row s' ''unknown_uncertain'' =
             PInt (if fl_less cv (lowconf_threshold a)
                      \<or> fst (rng_random (rng_py s4)) < uncertain_rate a then 1 else 0)
         \<and> rng_py s5 = (if fl_less cv (lowconf_threshold a) then rng_py s4
                         else snd (rng_random (rng_py s4)))"
proof -
  from pr obtain s1 s5 s7 where
    s1: "fill_race_ml e a row0 (s\<lparr>cur_row := row0\<rparr>) = Inr s1" and
    s5: "fill_unknown_uncertain e a row0
           (fill_conf_race e a R row0
              (fill_prefer_not_to_label e a row0 (fill_ambiguous_mixed e a row0 s1))) = Inr s5" and
    s7: "fill_skin_tone_bin e a row0 (fill_cultural_markers e a row0 s5) = Inr s7" and
    s': "s' = fill_annotation_notes e a row0 (fill_conf_gender e a row0 (fill_conf_skin e a row0 s7))"
    by (rule process_row_steps)
  define s4 where "s4 = fill_conf_race e a R row0
              (fill_prefer_not_to_label e a row0 (fill_ambiguous_mixed e a row0 s1))"
  have b4: "before_unknown_uncertain e a R row0 s = Inr s4"
    using s1 by (simp add: before_unknown_uncertain_def s4_def)
  have s5': "fill_unknown_uncertain e a row0 s4 = Inr s5" using s5 by (simp add: s4_def)
  from fill_unknown_uncertain_cell [OF s5' mf] obtain cv where
    cv: "conf_val e (cur_row s4) = Inr cv" and
    uu5: "cur_row s5 ''unknown_uncertain'' =
            PInt (if fl_less cv (lowconf_threshold a)
                     \<or> fst (rng_random (rng_py s4)) < uncertain_rate a then 1 else 0)" and
    g5: "rng_py s5 = (if fl_less cv (lowconf_threshold a) then rng_py s4
                      else snd (rng_random (rng_py s4)))"
    by blast
  have uu7: "cur_row s7 ''unknown_uncertain'' = cur_row s5 ''unknown_uncertain''"
    using fill_skin_tone_bin_frame [OF s7, of "''unknown_uncertain''"]
    by (simp add: fill_cultural_markers_frame)
  have uu: "cur_row s' ''unknown_uncertain'' = cur_row s5 ''unknown_uncertain''"
    using uu7 s'
    by (simp add: fill_annotation_notes_frame fill_conf_gender_frame fill_conf_skin_frame)
  have c5: "cur_row s5 ''conf_race'' = cur_row s4 ''conf_race''"
    using fill_unknown_uncertain_frame [OF s5', of "''conf_race''"] by simp
  have c7: "cur_row s7 ''conf_race'' = cur_row s4 ''conf_race''"
    using fill_skin_tone_bin_frame [OF s7, of "''conf_race''"] c5
    by (simp add: fill_cultural_markers_frame)
  have c: "cur_row s' ''conf_race'' = cur_row s4 ''conf_race''"
    using c7 s'
    by (simp add: fill_annotation_notes_frame fill_conf_gender_frame fill_conf_skin_frame)
  have cv': "conf_val e (cur_row s') = Inr cv"
    using cv conf_val_cong [of "cur_row s'" "cur_row s4" e, OF c] by simp
  have uu': "cur_row s' ''unknown_uncertain'' =
          PInt (if fl_less cv (lowconf_threshold a)
                   \<or> fst (rng_random (rng_py s4)) < uncertain_rate a then 1 else 0)"
    using uu uu5 by simp
  show ?thesis using b4 s5' cv' uu' g5 by blast
qed

lemma MiddleEastern_candidates:
  "map sorted_pair
     (filter (\<lambda>p. ''MiddleEastern'' = fst p \<or> ''MiddleEastern'' = snd p) ADJACENT_PAIRS) =
   [(''MiddleEastern'', ''SouthAsian''), (''Latino'', ''MiddleEastern'')]"
  by (simp add: ADJACENT_PAIRS_def sorted_pair_def)

lemma rng_choice_two:
  "rng_choice g [x, y] = Inr (if g 0 mod 2 = 0 then x else y, rng_next g)"
proof -
  have len: "length [x, y] = 2" by simp
  have ne: "[x, y] \<noteq> []" by simp
  consider (zero) "g 0 mod 2 = 0" | (one) "g 0 mod 2 = 1" by linarith
  then show ?thesis
  proof cases
    case zero
    then show ?thesis unfolding rng_choice_def len using ne by simp
  next
    case one
    then show ?thesis unfolding rng_choice_def len using ne by simp
  qed
qed

lemma choose_multilabel_MiddleEastern:
  "choose_multilabel g ''MiddleEastern'' 1 =
     Inr (if snd (rng_random g) 0 mod 2 = 0 then ''MiddleEastern|SouthAsian''
          else ''MiddleEastern|Latino'',
          rng_next (snd (rng_random g)))"
proof -
  obtain u g1 where r: "rng_random g = (u, g1)" by (cases "rng_random g")
  have in_classes: "''MiddleEastern'' \<in> set FF_CLASSES" by (simp add: FF_CLASSES_def)
  have u: "u < 1" using rng_random_less_1 [of g] r by simp
  show ?thesis
    unfolding choose_multilabel_def MiddleEastern_candidates
    using in_classes u by (simp add: r rng_choice_two)
qed

lemma process_row_race_ml_MiddleEastern:
  assumes pr: "process_row e a R row0 s = Inr s'"
    and mf: "must_fill e a row0 ''race_ml''"
    and base: "py_str e (row0 ''race_cat'') = ''MiddleEastern''"
    and rate: "ambiguous_rate a = 1"
  shows "cur_row s' ''race_ml'' = PStr ''MiddleEastern|SouthAsian''
         \<or> cur_row s' ''race_ml'' = PStr ''MiddleEastern|Latino''"
proof -
  from pr obtain s1 s5 s7 where
    s1: "fill_race_ml e a row0 (s\<lparr>cur_row := row0\<rparr>) = Inr s1" and
    s5: "fill_unknown_uncertain e a row0
           (fill_conf_race e a R row0
              (fill_prefer_not_to_label e a row0 (fill_ambiguous_mixed e a row0 s1))) = Inr s5" and
    s7: "fill_skin_tone_bin e a row0 (fill_cultural_markers e a row0 s5) = Inr s7" and
    s': "s' = fill_annotation_notes e a row0 (fill_conf_gender e a row0 (fill_conf_skin e a row0 s7))"
    by (rule process_row_steps)
  have r1: "cur_row s1 ''race_ml'' = PStr ''MiddleEastern|SouthAsian''
            \<or> cur_row s1 ''race_ml'' = PStr ''MiddleEastern|Latino''"
    using s1 mf base rate
    by (auto simp: fill_race_ml_def choose_multilabel_MiddleEastern split: if_splits)
  have r5: "cur_row s5 ''race_ml'' = cur_row s1 ''race_ml''"
    using fill_unknown_uncertain_frame [OF s5, of "''race_ml''"]
    by (simp add: fill_conf_race_frame fill_prefer_not_to_label_frame fill_ambiguous_mixed_frame)
  have r7: "cur_row s7 ''race_ml'' = cur_row s1 ''race_ml''"
    using fill_skin_tone_bin_frame [OF s7, of "''race_ml''"] r5
    by (simp add: fill_cultural_markers_frame)
  have r: "cur_row s' ''race_ml'' = cur_row s1 ''race_ml''"
    using r7 s'
    by (simp add: fill_annotation_notes_frame fill_conf_gender_frame fill_conf_skin_frame)
  show ?thesis using r r1 by simp
qed

section \<open>The confidence cells\<close>

lemma round3_uniform_conf_in:
  assumes "of_int m / 1000 \<le> x" "x \<le> of_int n / 1000"
    and "of_int m / 1000 \<le> y" "y \<le> of_int n / 1000"
  shows "conf_in (of_int m / 1000) (of_int n / 1000)
           (PFloat (round3 (fst (rng_uniform g (Fin x) (Fin y)))))"
proof -
  let ?u = "fst (rng_random g)"
  have b: "of_int m / 1000 \<le> x + (y - x) * ?u \<and> x + (y - x) * ?u \<le> of_int n / 1000"
    using rng_random_nonneg [of g] rng_random_less_1 [of g] assms by (rule convex_between)
  then obtain k where k: "round3 (Fin (x + (y - x) * ?u)) = Fin (of_int k / 1000)"
    "m \<le> k" "k \<le> n"
    using round3_Fin_bounds [of m "x + (y - x) * ?u" n] by blast
  have "conf_in (of_int m / 1000) (of_int n / 1000) (PFloat (Fin (of_int k / 1000)))"
    using k(2,3) by (simp add: divide_right_mono)
  then show ?thesis using k(1) by (simp add: rng_uniform_Fin)
qed

lemma round3_uniform_unit:
  assumes "in_unit x" "in_unit y"
  shows "conf_in 0 1 (PFloat (round3 (fst (rng_uniform g x y))))"
proof -
  from assms obtain p q where x: "x = Fin p" and y: "y = Fin q"
    and b: "0 \<le> p" "p \<le> 1" "0 \<le> q" "q \<le> 1"
    by (cases x; cases y) auto
  have "conf_in (of_int 0 / 1000) (of_int 1000 / 1000)
          (PFloat (round3 (fst (rng_uniform g (Fin p) (Fin q)))))"
    by (rule round3_uniform_conf_in) (use b in simp_all)
  then show ?thesis using x y by simp
qed










section \<open>Blocks that are passed over\<close>

lemma must_fill_upd_other: "c' \<noteq> c \<Longrightarrow> must_fill e a (r(c := v)) c' = must_fill e a r c'"
  by (simp add: must_fill_def)

lemma must_fill_upd_same: "must_fill e a (r(c := v)) c = (overwrite a \<or> blank e v)"
  by (simp add: must_fill_def)

lemma fill_race_ml_skip:
  "\<not> must_fill e a row0 ''race_ml'' \<Longrightarrow>
     fill_race_ml e a row0 s = Inr (s\<lparr>ml_val := py_str e (row0 ''race_ml'')\<rparr>)"
  by (simp add: fill_race_ml_def)

lemma fill_ambiguous_mixed_skip:
  "\<not> must_fill e a row0 ''ambiguous_mixed'' \<Longrightarrow> fill_ambiguous_mixed e a row0 s = s"
  by (simp add: fill_ambiguous_mixed_def)

lemma fill_prefer_not_to_label_skip:
  "\<not> must_fill e a row0 ''prefer_not_to_label'' \<Longrightarrow> fill_prefer_not_to_label e a row0 s = s"
  by (simp add: fill_prefer_not_to_label_def)

lemma fill_conf_race_skip:
  "\<not> must_fill e a row0 ''conf_race'' \<Longrightarrow> fill_conf_race e a R row0 s = s"
  by (simp add: fill_conf_race_def split: prod.splits)

lemma fill_unknown_uncertain_skip:
  "\<not> must_fill e a row0 ''unknown_uncertain'' \<Longrightarrow> conf_val e (cur_row s) = Inr cv \<Longrightarrow>
     fill_unknown_uncertain e a row0 s = Inr s"
  by (simp add: fill_unknown_uncertain_def)

lemma fill_cultural_markers_skip:
  "\<not> must_fill e a row0 ''cultural_markers'' \<Longrightarrow> fill_cultural_markers e a row0 s = s"
  by (simp add: fill_cultural_markers_def)

lemma fill_skin_tone_bin_skip:
  "\<not> must_fill e a row0 ''skin_tone_bin'' \<Longrightarrow> fill_skin_tone_bin e a row0 s = Inr s"
  by (simp add: fill_skin_tone_bin_def)

lemma fill_conf_skin_skip:
  "\<not> must_fill e a row0 ''conf_skin'' \<Longrightarrow> fill_conf_skin e a row0 s = s"
  by (simp add: fill_conf_skin_def)

lemma fill_conf_gender_skip:
  "\<not> must_fill e a row0 ''conf_gender'' \<Longrightarrow> fill_conf_gender e a row0 s = s"
  by (simp add: fill_conf_gender_def)

lemma fill_annotation_notes_skip:
  "\<not> must_fill e a row0 ''annotation_notes'' \<Longrightarrow> fill_annotation_notes e a row0 s = s"
  by (simp add: fill_annotation_notes_def)

section \<open>The filled cells of the output table\<close>


text \<open>
  C5, amended. For every row whose \<^verbatim>\<open>ambiguous_mixed\<close> the engine fills (the cell was blank
  by the script's test, or overwrite mode is on), the flag in the output is 1 if the row's
  \<^verbatim>\<open>race_ml\<close> in the output contains the separator \<^verbatim>\<open>|\<close> and 0 otherwise, whether the
  label was just chosen or was already in the input. A flag that was already filled is
  not recomputed in fill-blanks mode.
\<close>

theorem ambiguous_mixed_iff_sep_when_filled:
  assumes "fill_table e a R s d = Inr (d', s')"
    and "i < length (rows d)"
    and "must_fill e a (rows (ensure_columns d) ! i) ''ambiguous_mixed''"
  shows "(rows d' ! i) ''ambiguous_mixed'' =
           PInt (if has_sep (py_str e ((rows d' ! i) ''race_ml'')) then 1 else 0)"
proof -
  from fill_table_nth [OF assms(1,2)] obtain si si' where
    "process_row e a R (rows (ensure_columns d) ! i) si = Inr si'" "rows d' ! i = cur_row si'"
    by blast
  then show ?thesis using process_row_ambiguous_mixed [OF _ assms(3)] by simp
qed


text \<open>
  C7, amended. For every row whose base race category is \<^verbatim>\<open>MiddleEastern\<close>, with the
  ambiguous rate 1.0 and \<^verbatim>\<open>race_ml\<close> filled by the engine, the label written is
  \<^verbatim>\<open>MiddleEastern|SouthAsian\<close> or \<^verbatim>\<open>MiddleEastern|Latino\<close>: the table of adjacent pairs
  holds two pairs with \<^verbatim>\<open>MiddleEastern\<close>.
\<close>

theorem MiddleEastern_race_ml_two_neighbours:
  assumes "fill_table e a R s d = Inr (d', s')"
    and "i < length (rows d)"
    and "must_fill e a (rows (ensure_columns d) ! i) ''race_ml''"
    and "py_str e ((rows (ensure_columns d) ! i) ''race_cat'') = ''MiddleEastern''"
    and "ambiguous_rate a = 1"
  shows "(rows d' ! i) ''race_ml'' = PStr ''MiddleEastern|SouthAsian''
         \<or> (rows d' ! i) ''race_ml'' = PStr ''MiddleEastern|Latino''"
proof -
  from fill_table_nth [OF assms(1,2)] obtain si si' where
    "process_row e a R (rows (ensure_columns d) ! i) si = Inr si'" "rows d' ! i = cur_row si'"
    by blast
  then show ?thesis using process_row_race_ml_MiddleEastern [OF _ assms(3,4,5)] by simp
qed

text \<open>
  C9. For every row whose \<^verbatim>\<open>unknown_uncertain\<close> the engine fills, the race confidence of
  the row in the output converts to a float \<open>cv\<close>, and the flag is 1 if \<open>cv\<close> is below the
  configured threshold or the draw is below the configured uncertain rate, and 0
  otherwise. The draw is the next number in \<open>[0, 1)\<close> of the Python generator as the
  blocks before the flag have left it on this row, after the rows above; it is taken from
  the generator only when \<open>cv\<close> is not below the threshold. In particular a confidence
  below the threshold always gives the flag 1 and leaves the generator where it was.
\<close>

theorem unknown_uncertain_rule:
  assumes "fill_table e a R s d = Inr (d', s')"
    and "i < length (rows d)"
    and "must_fill e a (rows (ensure_columns d) ! i) ''unknown_uncertain''"
  shows "\<exists>out si s4 s5 cv.
           process_rows e a R (take i (rows (ensure_columns d))) s = Inr (out, si)
         \<and> before_unknown_uncertain e a R (rows (ensure_columns d) ! i) si = Inr s4
         \<and> fill_unknown_uncertain e a (rows (ensure_columns d) ! i) s4 = Inr s5
         \<and> conf_val e (rows d' ! i) = Inr cv
         \<and> 0 \<le> fst (rng_random (rng_py s4)) \<and> fst (rng_random (rng_py s4)) < 1
         \<and> (rows d' ! i) ''unknown_uncertain'' =
             PInt (if fl_less cv (lowconf_threshold a)
                      \<or> fst (rng_random (rng_py s4)) < uncertain_rate a then 1 else 0)
         \<and> rng_py s5 = (if fl_less cv (lowconf_threshold a) then rng_py s4
                         else snd (rng_random (rng_py s4)))"
proof -
  from fill_table_nth_state [OF assms(1,2)] obtain out si si' where
    t: "process_rows e a R (take i (rows (ensure_columns d))) s = Inr (out, si)" and
    p: "process_row e a R (rows (ensure_columns d) ! i) si = Inr si'" and
    c: "rows d' ! i = cur_row si'"
    by blast
  from process_row_unknown_uncertain [OF p assms(3)] obtain s4 s5 cv where
    r: "before_unknown_uncertain e a R (rows (ensure_columns d) ! i) si = Inr s4"
      "fill_unknown_uncertain e a (rows (ensure_columns d) ! i) s4 = Inr s5"
      "conf_val e (cur_row si') = Inr cv"
      "cur_row si' ''unknown_uncertain'' =
         PInt (if fl_less cv (lowconf_threshold a)
                  \<or> fst (rng_random (rng_py s4)) < uncertain_rate a then 1 else 0)"
      "rng_py s5 = (if fl_less cv (lowconf_threshold a) then rng_py s4
                    else snd (rng_random (rng_py s4)))"
    by blast
  have u: "0 \<le> fst (rng_random (rng_py s4))" "fst (rng_random (rng_py s4)) < 1"
    by (rule rng_random_nonneg, rule rng_random_less_1)
  show ?thesis using t r u unfolding c by blast
qed

lemma foldl_safe_col_id:
  "set cs \<subseteq> set (columns d) \<Longrightarrow> foldl (\<lambda>d c. safe_col d c v) d cs = d"
  by (induction cs arbitrary: d) (simp_all add: safe_col_def)

lemma ensure_columns_id: "set recognised \<subseteq> set (columns d) \<Longrightarrow> ensure_columns d = d"
  by (simp add: ensure_columns_def foldl_safe_col_id)

lemma filled_must_fill:
  assumes "filled e r" "\<not> overwrite a" "c \<in> set derived"
  shows "\<not> must_fill e a r c"
  using assms by (simp add: filled_def must_fill_def list_all_iff)

lemma filled_conf_val:
  assumes "filled e r"
  shows "\<exists>cv. conf_val e r = Inr cv"
proof -
  have "\<not> blank e (r ''conf_race'')"
    using assms by (simp add: filled_def derived_def)
  moreover have "\<exists>cv. py_float e (r ''conf_race'') = Inr cv"
    using assms by (cases "py_float e (r ''conf_race'')") (simp_all add: filled_def)
  ultimately show ?thesis by (simp add: conf_val_def)
qed

lemma process_row_filled:
  assumes f: "filled e r" and o: "\<not> overwrite a"
  shows "process_row e a R r s = Inr (s\<lparr>cur_row := r, ml_val := py_str e (r ''race_ml'')\<rparr>)"
proof -
  have mf: "\<And>c. c \<in> set derived \<Longrightarrow> \<not> must_fill e a r c"
    using f o by (rule filled_must_fill)
  from filled_conf_val [OF f] obtain cv where cv: "conf_val e r = Inr cv" by blast
  have m:
    "\<not> must_fill e a r ''race_ml''" "\<not> must_fill e a r ''ambiguous_mixed''"
    "\<not> must_fill e a r ''prefer_not_to_label''" "\<not> must_fill e a r ''conf_race''"
    "\<not> must_fill e a r ''unknown_uncertain''" "\<not> must_fill e a r ''cultural_markers''"
    "\<not> must_fill e a r ''skin_tone_bin''" "\<not> must_fill e a r ''conf_skin''"
    "\<not> must_fill e a r ''conf_gender''" "\<not> must_fill e a r ''annotation_notes''"
    by (rule mf, simp add: derived_def)+
  have uu: "fill_unknown_uncertain e a r (s\<lparr>cur_row := r, ml_val := py_str e (r ''race_ml'')\<rparr>)
              = Inr (s\<lparr>cur_row := r, ml_val := py_str e (r ''race_ml'')\<rparr>)"
    by (rule fill_unknown_uncertain_skip [OF m(5)]) (simp add: cv)
  show ?thesis
    by (simp add: process_row_def fill_race_ml_skip fill_ambiguous_mixed_skip
        fill_prefer_not_to_label_skip fill_conf_race_skip fill_cultural_markers_skip
        fill_skin_tone_bin_skip fill_conf_skin_skip fill_conf_gender_skip
        fill_annotation_notes_skip m uu)
qed

lemma process_rows_filled:
  assumes "list_all (filled e) rs" "\<not> overwrite a"
  shows "\<exists>s'. process_rows e a R rs s = Inr (rs, s') \<and> rng_py s' = rng_py s
              \<and> rng_np s' = rng_np s \<and> filled_counts s' = filled_counts s"
  using assms
proof (induction rs arbitrary: s)
  case Nil
  then show ?case by simp
next
  case (Cons r rs)
  then have f: "filled e r" and rest: "list_all (filled e) rs" by simp_all
  let ?s1 = "s\<lparr>cur_row := r, ml_val := py_str e (r ''race_ml'')\<rparr>"
  have r: "process_row e a R r s = Inr ?s1"
    using f Cons.prems(2) by (rule process_row_filled)
  from Cons.IH [OF rest Cons.prems(2), of ?s1] obtain s' where
    "process_rows e a R rs ?s1 = Inr (rs, s')" "rng_py s' = rng_py ?s1"
    "rng_np s' = rng_np ?s1" "filled_counts s' = filled_counts ?s1" by blast
  then show ?case using r by simp
qed

lemma flags_castable_all:
  assumes "flags_castable e d"
  shows "takeWhile (int_castable e (rows d)) flag_columns = flag_columns"
  using assms by (simp add: flags_castable_def list_all_iff)

lemma flags_castable_single:
  assumes "\<not> is_inf (to_numeric e (r ''ambiguous_mixed''))"
    and "\<not> is_inf (to_numeric e (r ''unknown_uncertain''))"
    and "\<not> is_inf (to_numeric e (r ''prefer_not_to_label''))"
  shows "flags_castable e \<lparr>columns = cs, rows = [r]\<rparr>"
  using assms by (simp add: flags_castable_def int_castable_def flag_columns_def)

lemma main_1_saved:
  assumes "0 \<le> seed a" "seed a \<le> 4294967295"
    and "urange e (lo_conf_range a) = Inr lo"
    and "urange e (mid_conf_range a) = Inr mid"
    and "urange e (hi_conf_range a) = Inr hi"
    and "read_csv e (inp a) = Inr d"
    and "fill_table e a (lo, mid, hi)
           ((init_state (py_seeded e (seed a)) np0)\<lparr>rng_np := np_seeded e (seed a)\<rparr>) d
           = Inr (dout, sout)"
    and "rows dout \<noteq> []"
    and "flags_castable e dout"
    and "\<not> dry_run a"
    and "\<not> mkdir_fails e (outp a)"
    and "\<not> to_csv_fails e (outp a)"
  shows "main_1 e a np0 = ([SummaryHeader, SummaryTable, SuccessNotice], Inr (Saved dout))"
  using assms(1-8,10-12) flags_castable_all [OF assms(9)]
  by (simp add: main_1_def del: takeWhile_eq_all_conv)

lemma main_1_loop_error:
  assumes "0 \<le> seed a" "seed a \<le> 4294967295"
    and "urange e (lo_conf_range a) = Inr lo"
    and "urange e (mid_conf_range a) = Inr mid"
    and "urange e (hi_conf_range a) = Inr hi"
    and "read_csv e (inp a) = Inr d"
    and "fill_table e a (lo, mid, hi)
           ((init_state (py_seeded e (seed a)) np0)\<lparr>rng_np := np_seeded e (seed a)\<rparr>) d
           = Inl err"
  shows "main_1 e a np0 = ([], Inl err)"
  using assms by (simp add: main_1_def)

text \<open>
  C4, amended. Take a run in fill-blanks mode, not a dry run, whose seed lies in
  \<open>[0, 2^32 - 1]\<close>, whose three ranges parse, and whose output directory can be made and
  output file written, on a table that has at least one row and all sixteen recognised
  columns, in which every derived cell is non-blank, every \<^verbatim>\<open>conf_race\<close> converts to a
  float, and no cell of the three flag columns is an infinity when read as a number. The
  run prints the whole summary and the success notice and hands to the CSV writer exactly
  the table the CSV reader returned; the loop over the rows returns every row as it was,
  leaves both generators as the seeding left them and counts no cell as filled.
\<close>

theorem filled_table_unchanged:
  assumes "0 \<le> seed a" and "seed a \<le> 4294967295"
    and "urange e (lo_conf_range a) = Inr lo"
    and "urange e (mid_conf_range a) = Inr mid"
    and "urange e (hi_conf_range a) = Inr hi"
    and "read_csv e (inp a) = Inr d"
    and "set recognised \<subseteq> set (columns d)"
    and "rows d \<noteq> []"
    and "list_all (filled e) (rows d)"
    and "flags_castable e d"
    and "\<not> overwrite a"
    and "\<not> dry_run a"
    and "\<not> mkdir_fails e (outp a)"
    and "\<not> to_csv_fails e (outp a)"
  shows "main_1 e a np0 = ([SummaryHeader, SummaryTable, SuccessNotice], Inr (Saved d))
       \<and> (\<exists>s'. fill_table e a (lo, mid, hi)
                  ((init_state (py_seeded e (seed a)) np0)\<lparr>rng_np := np_seeded e (seed a)\<rparr>) d
                  = Inr (d, s')
              \<and> rng_py s' = py_seeded e (seed a) \<and> rng_np s' = np_seeded e (seed a)
              \<and> filled_counts s' = (\<lambda>c. 0))"
proof -
  let ?s0 = "(init_state (py_seeded e (seed a)) np0)\<lparr>rng_np := np_seeded e (seed a)\<rparr>"
  have ec: "ensure_columns d = d" using assms(7) by (rule ensure_columns_id)
  from process_rows_filled [OF assms(9,11), of "(lo, mid, hi)" ?s0] obtain s' where
    pr: "process_rows e a (lo, mid, hi) (rows d) ?s0 = Inr (rows d, s')"
    and g: "rng_py s' = rng_py ?s0" "rng_np s' = rng_np ?s0"
      "filled_counts s' = filled_counts ?s0" by blast
  from pr have ft: "fill_table e a (lo, mid, hi) ?s0 d = Inr (d, s')"
    by (simp add: fill_table_def ec)
  have run: "main_1 e a np0 = ([SummaryHeader, SummaryTable, SuccessNotice], Inr (Saved d))"
    using assms(1-6) ft assms(8,10,12-14) by (rule main_1_saved)
  have g': "rng_py s' = py_seeded e (seed a)" "rng_np s' = np_seeded e (seed a)"
    "filled_counts s' = (\<lambda>c. 0)"
    using g by (simp_all add: init_state_def)
  show ?thesis using run ft g' by blast
qed

section \<open>The concrete inputs evaluated\<close>

lemma fx_urange:
  "urange (fx_env d) ''0.30,0.55'' = Inr (Fin (30/100), Fin (55/100))"
  "urange (fx_env d) ''0.55,0.80'' = Inr (Fin (55/100), Fin (80/100))"
  "urange (fx_env d) ''0.80,1.00'' = Inr (Fin (80/100), Fin 1)"
  "urange (fx_env d) ''2,3'' = Inr (Fin 2, Fin 3)"
  by (simp_all add: urange_def fx_env_def fx_floats_def)

lemma fx_random: "rng_random fx_draws = (3/4, fx_draws)"
  by (simp add: rng_random_def rng_next_def fx_draws_def)

lemma odd_random: "snd (rng_random odd_draws) 0 mod 2 = 1"
  by (simp add: rng_random_def rng_next_def odd_draws_def)

lemma blank_PStr: "blank e (PStr s) = (strip s = [])"
  by (simp add: blank_def)

lemma fx_not_blank_float: "\<not> blank (fx_env d) (PFloat (Fin r))"
  by (simp add: blank_def fx_env_def strip_def is_space_def)

lemma not_blank_zero: "\<not> blank e (PInt 0)"
  by (simp add: blank_def strip_def is_space_def str_int_def str_nat.simps digit_char_def)

lemma fx_must_fill:
  assumes "\<not> overwrite a"
  shows
  "\<not> must_fill (fx_env d) a fx_row ''race_ml''"
  "\<not> must_fill (fx_env d) a fx_row ''ambiguous_mixed''"
  "\<not> must_fill (fx_env d) a fx_row ''prefer_not_to_label''"
  "\<not> must_fill (fx_env d) a fx_row ''conf_race''"
  "\<not> must_fill (fx_env d) a fx_row ''unknown_uncertain''"
  "\<not> must_fill (fx_env d) a fx_row ''cultural_markers''"
  "\<not> must_fill (fx_env d) a fx_row ''skin_tone_bin''"
  "\<not> must_fill (fx_env d) a fx_row ''conf_skin''"
  "\<not> must_fill (fx_env d) a fx_row ''conf_gender''"
  "\<not> must_fill (fx_env d) a fx_row ''annotation_notes''"
  using assms
  by (simp_all add: must_fill_def fx_row_def blank_PStr strip_def is_space_def
      fx_not_blank_float not_blank_zero)

lemma fx_conf_val: "conf_val (fx_env d) (r(''conf_race'' := PFloat f)) = Inr f"
  by (cases f) (simp_all add: conf_val_def blank_def strip_def is_space_def fx_env_def)

lemma fx_conf_val_float: "r ''conf_race'' = PFloat f \<Longrightarrow> conf_val (fx_env d) r = Inr f"
  by (cases f) (simp_all add: conf_val_def blank_def strip_def is_space_def fx_env_def)

lemma fx_row_conf_val: "conf_val (fx_env d) fx_row = Inr (Fin (9/10))"
  by (simp add: conf_val_def fx_row_def fx_not_blank_float)

lemma fx_args_fields:
  "\<not> overwrite fx_args" "\<not> dry_run fx_args" "inp fx_args = ''labels.csv''"
  "outp fx_args = ''labels.csv''"
  "lo_conf_range fx_args = ''0.30,0.55''" "mid_conf_range fx_args = ''0.55,0.80''"
  "hi_conf_range fx_args = ''0.80,1.00''" "skin_tone_method fx_args = Random"
  "skin_bins fx_args = 7" "lowconf_threshold fx_args = 6/10" "uncertain_rate fx_args = 1/10"
  "ambiguous_rate fx_args = 15/100" "seed fx_args = 42"
  by (simp_all add: fx_args_def)

lemma fx_env_fields:
  "PIL_OK (fx_env d)" "read_csv (fx_env d) ''labels.csv'' = Inr d"
  "\<not> mkdir_fails (fx_env d) p" "\<not> to_csv_fails (fx_env d) p"
  "py_seeded (fx_env d) sd = fx_draws" "np_seeded (fx_env d) sd = fx_draws"
  "image_open (fx_env d) p = None"
  by (simp_all add: fx_env_def)

lemma ensure_columns_fx_table: "ensure_columns (fx_table r) = fx_table r"
  by (rule ensure_columns_id) (simp add: fx_table_def)

lemma fill_table_single:
  assumes "process_row e a R r s = Inr s1"
  shows "fill_table e a R s (fx_table r) = Inr (\<lparr>columns = recognised, rows = [cur_row s1]\<rparr>, s1)"
  unfolding fill_table_def ensure_columns_fx_table using assms by (simp add: fx_table_def)

lemma fill_table_single_error:
  assumes "process_row e a R r s = Inl err"
  shows "fill_table e a R s (fx_table r) = Inl err"
  unfolding fill_table_def ensure_columns_fx_table using assms by (simp add: fx_table_def)

lemma fx_state_seeded: "(init_state fx_draws np0)\<lparr>rng_np := fx_draws\<rparr> = fx_state"
  by (simp add: fx_state_def init_state_def)

lemma main_1_fx_saved:
  assumes "lo_conf_range a = ''0.30,0.55''" "mid_conf_range a = ''0.55,0.80''"
    and "urange (fx_env (fx_table r)) (hi_conf_range a) = Inr hi"
    and "inp a = ''labels.csv''" "\<not> dry_run a"
    and "process_row (fx_env (fx_table r)) a
           ((Fin (30/100), Fin (55/100)), (Fin (55/100), Fin (80/100)), hi) r fx_state = Inr s1"
    and "seed a = 42"
    and "flags_castable (fx_env (fx_table r)) \<lparr>columns = recognised, rows = [cur_row s1]\<rparr>"
  shows "main_1 (fx_env (fx_table r)) a np0 =
           ([SummaryHeader, SummaryTable, SuccessNotice],
            Inr (Saved \<lparr>columns = recognised, rows = [cur_row s1]\<rparr>))"
proof (rule main_1_saved [where sout = s1 and d = "fx_table r" and hi = hi])
  show "fill_table (fx_env (fx_table r)) a
          ((Fin (30/100), Fin (55/100)), (Fin (55/100), Fin (80/100)), hi)
          ((init_state (py_seeded (fx_env (fx_table r)) (seed a)) np0)
             \<lparr>rng_np := np_seeded (fx_env (fx_table r)) (seed a)\<rparr>) (fx_table r)
        = Inr (\<lparr>columns = recognised, rows = [cur_row s1]\<rparr>, s1)"
    using fill_table_single [OF assms(6)] by (simp add: fx_env_fields fx_state_seeded)
qed (simp_all add: assms fx_urange fx_env_fields)

lemma main_1_fx_error:
  assumes "lo_conf_range a = ''0.30,0.55''" "mid_conf_range a = ''0.55,0.80''"
    and "urange (fx_env (fx_table r)) (hi_conf_range a) = Inr hi"
    and "inp a = ''labels.csv''"
    and "process_row (fx_env (fx_table r)) a
           ((Fin (30/100), Fin (55/100)), (Fin (55/100), Fin (80/100)), hi) r fx_state = Inl err"
    and "seed a = 42"
  shows "main_1 (fx_env (fx_table r)) a np0 = ([], Inl err)"
proof (rule main_1_loop_error [where d = "fx_table r" and hi = hi])
  show "fill_table (fx_env (fx_table r)) a
          ((Fin (30/100), Fin (55/100)), (Fin (55/100), Fin (80/100)), hi)
          ((init_state (py_seeded (fx_env (fx_table r)) (seed a)) np0)
             \<lparr>rng_np := np_seeded (fx_env (fx_table r)) (seed a)\<rparr>) (fx_table r)
        = Inl err"
    using fill_table_single_error [OF assms(5)] by (simp add: fx_env_fields fx_state_seeded)
qed (simp_all add: assms fx_urange fx_env_fields)

lemma fx_flag_cells:
  "\<not> is_inf (to_numeric e (fx_row ''ambiguous_mixed''))"
  "\<not> is_inf (to_numeric e (fx_row ''unknown_uncertain''))"
  "\<not> is_inf (to_numeric e (fx_row ''prefer_not_to_label''))"
  by (simp_all add: fx_row_def)

lemmas skips = fill_race_ml_skip fill_ambiguous_mixed_skip fill_prefer_not_to_label_skip
  fill_conf_race_skip fill_cultural_markers_skip fill_skin_tone_bin_skip
  fill_conf_skin_skip fill_conf_gender_skip fill_annotation_notes_skip

lemmas fx_mf = fx_must_fill [OF fx_args_fields(1)]

lemma row_low_conf_must_fill:
  "\<not> must_fill (fx_env d) fx_args row_low_conf ''race_ml''"
  "\<not> must_fill (fx_env d) fx_args row_low_conf ''ambiguous_mixed''"
  "\<not> must_fill (fx_env d) fx_args row_low_conf ''prefer_not_to_label''"
  "\<not> must_fill (fx_env d) fx_args row_low_conf ''conf_race''"
  "must_fill (fx_env d) fx_args row_low_conf ''unknown_uncertain''"
  "\<not> must_fill (fx_env d) fx_args row_low_conf ''cultural_markers''"
  "\<not> must_fill (fx_env d) fx_args row_low_conf ''skin_tone_bin''"
  "\<not> must_fill (fx_env d) fx_args row_low_conf ''conf_skin''"
  "\<not> must_fill (fx_env d) fx_args row_low_conf ''conf_gender''"
  "\<not> must_fill (fx_env d) fx_args row_low_conf ''annotation_notes''"
  by (simp_all add: row_low_conf_def must_fill_upd_other must_fill_upd_same fx_mf blank_PStr
      strip_def fx_args_fields fx_not_blank_float)

lemma row_low_conf_run:
  "process_row (fx_env d) fx_args fx_ranges row_low_conf s =
     Inr (bump ''unknown_uncertain''
            (set_cell ''unknown_uncertain'' (PInt 1)
               (s\<lparr>cur_row := row_low_conf, ml_val := ''Black''\<rparr>)))"
proof -
  have cv: "conf_val (fx_env d) row_low_conf = Inr (Fin (1/2))"
    unfolding row_low_conf_def by (rule fx_conf_val)
  have ml: "py_str (fx_env d) (row_low_conf ''race_ml'') = ''Black''"
    by (simp add: row_low_conf_def fx_row_def)
  show ?thesis
    by (simp add: process_row_def skips row_low_conf_must_fill fill_unknown_uncertain_def cv ml
        fx_args_fields)
qed

lemma zero_random: "rng_random zero_draws = (0, zero_draws)"
  by (simp add: rng_random_def rng_next_def zero_draws_def)

lemma row_blank_flag_must_fill:
  "\<not> must_fill (fx_env d) fx_args row_blank_flag ''race_ml''"
  "\<not> must_fill (fx_env d) fx_args row_blank_flag ''ambiguous_mixed''"
  "\<not> must_fill (fx_env d) fx_args row_blank_flag ''prefer_not_to_label''"
  "\<not> must_fill (fx_env d) fx_args row_blank_flag ''conf_race''"
  "must_fill (fx_env d) fx_args row_blank_flag ''unknown_uncertain''"
  "\<not> must_fill (fx_env d) fx_args row_blank_flag ''cultural_markers''"
  "\<not> must_fill (fx_env d) fx_args row_blank_flag ''skin_tone_bin''"
  "\<not> must_fill (fx_env d) fx_args row_blank_flag ''conf_skin''"
  "\<not> must_fill (fx_env d) fx_args row_blank_flag ''conf_gender''"
  "\<not> must_fill (fx_env d) fx_args row_blank_flag ''annotation_notes''"
  by (simp_all add: row_blank_flag_def must_fill_upd_other must_fill_upd_same fx_mf blank_PStr
      strip_def fx_args_fields)

lemma row_blank_flag_run:
  "process_row (fx_env d) fx_args fx_ranges row_blank_flag s =
     Inr (bump ''unknown_uncertain''
            (set_cell ''unknown_uncertain''
               (PInt (if fst (rng_random (rng_py s)) < uncertain_rate fx_args then 1 else 0))
               (s\<lparr>cur_row := row_blank_flag, ml_val := ''Black'',
                  rng_py := snd (rng_random (rng_py s))\<rparr>)))"
proof -
  let ?s1 = "s\<lparr>cur_row := row_blank_flag, ml_val := ''Black''\<rparr>"
  have cv: "conf_val (fx_env d) row_blank_flag = Inr (Fin (9/10))"
    by (rule fx_conf_val_float) (simp add: row_blank_flag_def fx_row_def)
  have ml: "py_str (fx_env d) (row_blank_flag ''race_ml'') = ''Black''"
    by (simp add: row_blank_flag_def fx_row_def)
  obtain u g where r: "rng_random (rng_py s) = (u, g)" by (cases "rng_random (rng_py s)")
  have b5: "fill_unknown_uncertain (fx_env d) fx_args row_blank_flag ?s1 =
              Inr (bump ''unknown_uncertain''
                     (set_cell ''unknown_uncertain''
                        (PInt (if u < uncertain_rate fx_args then 1 else 0))
                        (?s1\<lparr>rng_py := g\<rparr>)))"
    by (simp add: fill_unknown_uncertain_def cv row_blank_flag_must_fill r fx_args_fields)
  show ?thesis
    by (simp add: process_row_def skips row_blank_flag_must_fill ml b5 r)
qed

text \<open>
  C9 at three runs under the default command line (threshold 0.6, uncertain rate 0.1). A
  row with a blank flag and the confidence 0.5 gets the flag 1 without a draw. A row with
  a blank flag and the confidence 0.9 gets the flag 0 when the generator's next number is
  0.75, and the flag 1 when it is 0.
\<close>

theorem unknown_uncertain_rule_witness:
  "(\<exists>d' s' out si s4 s5 cv.
        fill_table (fx_env (fx_table row_low_conf)) fx_args fx_ranges fx_state
          (fx_table row_low_conf) = Inr (d', s')
      \<and> 0 < length (rows (fx_table row_low_conf))
      \<and> must_fill (fx_env (fx_table row_low_conf)) fx_args
          (rows (ensure_columns (fx_table row_low_conf)) ! 0) ''unknown_uncertain''
      \<and> process_rows (fx_env (fx_table row_low_conf)) fx_args fx_ranges
          (take 0 (rows (ensure_columns (fx_table row_low_conf)))) fx_state = Inr (out, si)
      \<and> before_unknown_uncertain (fx_env (fx_table row_low_conf)) fx_args fx_ranges
          (rows (ensure_columns (fx_table row_low_conf)) ! 0) si = Inr s4
      \<and> fill_unknown_uncertain (fx_env (fx_table row_low_conf)) fx_args
          (rows (ensure_columns (fx_table row_low_conf)) ! 0) s4 = Inr s5
      \<and> conf_val (fx_env (fx_table row_low_conf)) (rows d' ! 0) = Inr cv
      \<and> (rows d' ! 0) ''unknown_uncertain'' =
          PInt (if fl_less cv (lowconf_threshold fx_args)
                   \<or> fst (rng_random (rng_py s4)) < uncertain_rate fx_args then 1 else 0)
      \<and> rng_py s5 = (if fl_less cv (lowconf_threshold fx_args) then rng_py s4
                      else snd (rng_random (rng_py s4)))
      \<and> (rows d' ! 0) ''unknown_uncertain'' = PInt 1)
   \<and> (\<exists>d' s' out si s4 s5 cv.
        fill_table (fx_env (fx_table row_blank_flag)) fx_args fx_ranges fx_state
          (fx_table row_blank_flag) = Inr (d', s')
      \<and> 0 < length (rows (fx_table row_blank_flag))
      \<and> must_fill (fx_env (fx_table row_blank_flag)) fx_args
          (rows (ensure_columns (fx_table row_blank_flag)) ! 0) ''unknown_uncertain''
      \<and> process_rows (fx_env (fx_table row_blank_flag)) fx_args fx_ranges
          (take 0 (rows (ensure_columns (fx_table row_blank_flag)))) fx_state = Inr (out, si)
      \<and> before_unknown_uncertain (fx_env (fx_table row_blank_flag)) fx_args fx_ranges
          (rows (ensure_columns (fx_table row_blank_flag)) ! 0) si = Inr s4
      \<and> fill_unknown_uncertain (fx_env (fx_table row_blank_flag)) fx_args
          (rows (ensure_columns (fx_table row_blank_flag)) ! 0) s4 = Inr s5
      \<and> conf_val (fx_env (fx_table row_blank_flag)) (rows d' ! 0) = Inr cv
      \<and> (rows d' ! 0) ''unknown_uncertain'' =
          PInt (if fl_less cv (lowconf_threshold fx_args)
                   \<or> fst (rng_random (rng_py s4)) < uncertain_rate fx_args then 1 else 0)
      \<and> rng_py s5 = (if fl_less cv (lowconf_threshold fx_args) then rng_py s4
                      else snd (rng_random (rng_py s4)))
      \<and> (rows d' ! 0) ''unknown_uncertain'' = PInt 0)
   \<and> (\<exists>d' s' out si s4 s5 cv.
        fill_table (fx_env (fx_table row_blank_flag)) fx_args fx_ranges (init_state zero_draws fx_draws)
          (fx_table row_blank_flag) = Inr (d', s')
      \<and> 0 < length (rows (fx_table row_blank_flag))
      \<and> must_fill (fx_env (fx_table row_blank_flag)) fx_args
          (rows (ensure_columns (fx_table row_blank_flag)) ! 0) ''unknown_uncertain''
      \<and> process_rows (fx_env (fx_table row_blank_flag)) fx_args fx_ranges
          (take 0 (rows (ensure_columns (fx_table row_blank_flag)))) (init_state zero_draws fx_draws) = Inr (out, si)
      \<and> before_unknown_uncertain (fx_env (fx_table row_blank_flag)) fx_args fx_ranges
          (rows (ensure_columns (fx_table row_blank_flag)) ! 0) si = Inr s4
      \<and> fill_unknown_uncertain (fx_env (fx_table row_blank_flag)) fx_args
          (rows (ensure_columns (fx_table row_blank_flag)) ! 0) s4 = Inr s5
      \<and> conf_val (fx_env (fx_table row_blank_flag)) (rows d' ! 0) = Inr cv
      \<and> (rows d' ! 0) ''unknown_uncertain'' =
          PInt (if fl_less cv (lowconf_threshold fx_args)
                   \<or> fst (rng_random (rng_py s4)) < uncertain_rate fx_args then 1 else 0)
      \<and> rng_py s5 = (if fl_less cv (lowconf_threshold fx_args) then rng_py s4
                      else snd (rng_random (rng_py s4)))
      \<and> (rows d' ! 0) ''unknown_uncertain'' = PInt 1)"
proof -
  have low: "(\<exists>d' s' out si s4 s5 cv.
           fill_table (fx_env (fx_table row_low_conf)) fx_args fx_ranges fx_state
             (fx_table row_low_conf) = Inr (d', s')
         \<and> 0 < length (rows (fx_table row_low_conf))
         \<and> must_fill (fx_env (fx_table row_low_conf)) fx_args
             (rows (ensure_columns (fx_table row_low_conf)) ! 0) ''unknown_uncertain''
         \<and> process_rows (fx_env (fx_table row_low_conf)) fx_args fx_ranges
             (take 0 (rows (ensure_columns (fx_table row_low_conf)))) fx_state = Inr (out, si)
         \<and> before_unknown_uncertain (fx_env (fx_table row_low_conf)) fx_args fx_ranges
             (rows (ensure_columns (fx_table row_low_conf)) ! 0) si = Inr s4
         \<and> fill_unknown_uncertain (fx_env (fx_table row_low_conf)) fx_args
             (rows (ensure_columns (fx_table row_low_conf)) ! 0) s4 = Inr s5
         \<and> conf_val (fx_env (fx_table row_low_conf)) (rows d' ! 0) = Inr cv
         \<and> (rows d' ! 0) ''unknown_uncertain'' =
             PInt (if fl_less cv (lowconf_threshold fx_args)
                      \<or> fst (rng_random (rng_py s4)) < uncertain_rate fx_args then 1 else 0)
         \<and> rng_py s5 = (if fl_less cv (lowconf_threshold fx_args) then rng_py s4
                         else snd (rng_random (rng_py s4)))
         \<and> (rows d' ! 0) ''unknown_uncertain'' = PInt 1)"
  proof -
    let ?E = "fx_env (fx_table row_low_conf)"
    let ?s1 = "bump ''unknown_uncertain''
            (set_cell ''unknown_uncertain'' (PInt 1)
               (fx_state\<lparr>cur_row := row_low_conf, ml_val := ''Black''\<rparr>))"
    let ?d' = "\<lparr>columns = recognised, rows = [cur_row ?s1]\<rparr>"
    have run: "fill_table ?E fx_args fx_ranges fx_state (fx_table row_low_conf) = Inr (?d', ?s1)"
      by (rule fill_table_single) (rule row_low_conf_run)
    have len: "0 < length (rows (fx_table row_low_conf))" by (simp add: fx_table_def)
    have mf: "must_fill ?E fx_args (rows (ensure_columns (fx_table row_low_conf)) ! 0)
                ''unknown_uncertain''"
      by (simp add: ensure_columns_fx_table) (simp add: fx_table_def row_low_conf_must_fill)
    note r = unknown_uncertain_rule [OF run len mf]
    have k: "(rows ?d' ! 0) ''unknown_uncertain'' = PInt 1"
      by (simp add: fx_args_fields)
    show ?thesis using run len mf r k by blast
  qed
  have high: "(\<exists>d' s' out si s4 s5 cv.
           fill_table (fx_env (fx_table row_blank_flag)) fx_args fx_ranges fx_state
             (fx_table row_blank_flag) = Inr (d', s')
         \<and> 0 < length (rows (fx_table row_blank_flag))
         \<and> must_fill (fx_env (fx_table row_blank_flag)) fx_args
             (rows (ensure_columns (fx_table row_blank_flag)) ! 0) ''unknown_uncertain''
         \<and> process_rows (fx_env (fx_table row_blank_flag)) fx_args fx_ranges
             (take 0 (rows (ensure_columns (fx_table row_blank_flag)))) fx_state = Inr (out, si)
         \<and> before_unknown_uncertain (fx_env (fx_table row_blank_flag)) fx_args fx_ranges
             (rows (ensure_columns (fx_table row_blank_flag)) ! 0) si = Inr s4
         \<and> fill_unknown_uncertain (fx_env (fx_table row_blank_flag)) fx_args
             (rows (ensure_columns (fx_table row_blank_flag)) ! 0) s4 = Inr s5
         \<and> conf_val (fx_env (fx_table row_blank_flag)) (rows d' ! 0) = Inr cv
         \<and> (rows d' ! 0) ''unknown_uncertain'' =
             PInt (if fl_less cv (lowconf_threshold fx_args)
                      \<or> fst (rng_random (rng_py s4)) < uncertain_rate fx_args then 1 else 0)
         \<and> rng_py s5 = (if fl_less cv (lowconf_threshold fx_args) then rng_py s4
                         else snd (rng_random (rng_py s4)))
         \<and> (rows d' ! 0) ''unknown_uncertain'' = PInt 0)"
  proof -
    let ?E = "fx_env (fx_table row_blank_flag)"
    let ?s1 = "bump ''unknown_uncertain''
            (set_cell ''unknown_uncertain''
               (PInt (if fst (rng_random (rng_py (fx_state))) < uncertain_rate fx_args
                      then 1 else 0))
               ((fx_state)\<lparr>cur_row := row_blank_flag, ml_val := ''Black'',
                  rng_py := snd (rng_random (rng_py (fx_state)))\<rparr>))"
    let ?d' = "\<lparr>columns = recognised, rows = [cur_row ?s1]\<rparr>"
    have run: "fill_table ?E fx_args fx_ranges fx_state (fx_table row_blank_flag) = Inr (?d', ?s1)"
      by (rule fill_table_single) (rule row_blank_flag_run)
    have len: "0 < length (rows (fx_table row_blank_flag))" by (simp add: fx_table_def)
    have mf: "must_fill ?E fx_args (rows (ensure_columns (fx_table row_blank_flag)) ! 0)
                ''unknown_uncertain''"
      by (simp add: ensure_columns_fx_table) (simp add: fx_table_def row_blank_flag_must_fill)
    note r = unknown_uncertain_rule [OF run len mf]
    have k: "(rows ?d' ! 0) ''unknown_uncertain'' = PInt 0"
      by (simp add: fx_state_def init_state_def fx_random fx_args_fields)
    show ?thesis using run len mf r k by blast
  qed
  have drawn: "(\<exists>d' s' out si s4 s5 cv.
           fill_table (fx_env (fx_table row_blank_flag)) fx_args fx_ranges (init_state zero_draws fx_draws)
             (fx_table row_blank_flag) = Inr (d', s')
         \<and> 0 < length (rows (fx_table row_blank_flag))
         \<and> must_fill (fx_env (fx_table row_blank_flag)) fx_args
             (rows (ensure_columns (fx_table row_blank_flag)) ! 0) ''unknown_uncertain''
         \<and> process_rows (fx_env (fx_table row_blank_flag)) fx_args fx_ranges
             (take 0 (rows (ensure_columns (fx_table row_blank_flag)))) (init_state zero_draws fx_draws) = Inr (out, si)
         \<and> before_unknown_uncertain (fx_env (fx_table row_blank_flag)) fx_args fx_ranges
             (rows (ensure_columns (fx_table row_blank_flag)) ! 0) si = Inr s4
         \<and> fill_unknown_uncertain (fx_env (fx_table row_blank_flag)) fx_args
             (rows (ensure_columns (fx_table row_blank_flag)) ! 0) s4 = Inr s5
         \<and> conf_val (fx_env (fx_table row_blank_flag)) (rows d' ! 0) = Inr cv
         \<and> (rows d' ! 0) ''unknown_uncertain'' =
             PInt (if fl_less cv (lowconf_threshold fx_args)
                      \<or> fst (rng_random (rng_py s4)) < uncertain_rate fx_args then 1 else 0)
         \<and> rng_py s5 = (if fl_less cv (lowconf_threshold fx_args) then rng_py s4
                         else snd (rng_random (rng_py s4)))
         \<and> (rows d' ! 0) ''unknown_uncertain'' = PInt 1)"
  proof -
    let ?E = "fx_env (fx_table row_blank_flag)"
    let ?s1 = "bump ''unknown_uncertain''
            (set_cell ''unknown_uncertain''
               (PInt (if fst (rng_random (rng_py (init_state zero_draws fx_draws))) < uncertain_rate fx_args
                      then 1 else 0))
               ((init_state zero_draws fx_draws)\<lparr>cur_row := row_blank_flag, ml_val := ''Black'',
                  rng_py := snd (rng_random (rng_py (init_state zero_draws fx_draws)))\<rparr>))"
    let ?d' = "\<lparr>columns = recognised, rows = [cur_row ?s1]\<rparr>"
    have run: "fill_table ?E fx_args fx_ranges (init_state zero_draws fx_draws) (fx_table row_blank_flag) = Inr (?d', ?s1)"
      by (rule fill_table_single) (rule row_blank_flag_run)
    have len: "0 < length (rows (fx_table row_blank_flag))" by (simp add: fx_table_def)
    have mf: "must_fill ?E fx_args (rows (ensure_columns (fx_table row_blank_flag)) ! 0)
                ''unknown_uncertain''"
      by (simp add: ensure_columns_fx_table) (simp add: fx_table_def row_blank_flag_must_fill)
    note r = unknown_uncertain_rule [OF run len mf]
    have k: "(rows ?d' ! 0) ''unknown_uncertain'' = PInt 1"
      by (simp add: init_state_def zero_random fx_args_fields)
    show ?thesis using run len mf r k by blast
  qed
  show ?thesis using low high drawn by (intro conjI)
qed

lemma filled_fx_variant:
  "filled (fx_env d) fx_row"
  "filled (fx_env d) row_mixed_prefilled"
  by (simp_all add: filled_def derived_def fx_row_def row_mixed_prefilled_def blank_PStr strip_def
      is_space_def fx_not_blank_float not_blank_zero)

text \<open>
  C5 as stated fails. In fill-blanks mode a row that arrives with \<^verbatim>\<open>race_ml\<close>
  \<^verbatim>\<open>Latino|White\<close> and \<^verbatim>\<open>ambiguous_mixed\<close> 0 leaves with both cells as they were: the
  label contains the separator and the flag is not 1.
\<close>

theorem prefilled_flag_kept_counterexample:
  "\<exists>d' s'.
     fill_table (fx_env (fx_table row_mixed_prefilled)) fx_args fx_ranges fx_state
       (fx_table row_mixed_prefilled) = Inr (d', s')
     \<and> (rows d' ! 0) ''race_ml'' = PStr ''Latino|White''
     \<and> has_sep (py_str (fx_env (fx_table row_mixed_prefilled)) ((rows d' ! 0) ''race_ml''))
     \<and> (rows d' ! 0) ''ambiguous_mixed'' = PInt 0"
proof -
  let ?E = "fx_env (fx_table row_mixed_prefilled)"
  let ?s1 = "fx_state\<lparr>cur_row := row_mixed_prefilled,
                        ml_val := py_str ?E (row_mixed_prefilled ''race_ml'')\<rparr>"
  have "process_row ?E fx_args fx_ranges row_mixed_prefilled fx_state = Inr ?s1"
    by (rule process_row_filled) (simp_all add: filled_fx_variant fx_args_fields)
  then have run: "fill_table ?E fx_args fx_ranges fx_state (fx_table row_mixed_prefilled) =
                    Inr (\<lparr>columns = recognised, rows = [cur_row ?s1]\<rparr>, ?s1)"
    by (rule fill_table_single)
  have cells: "row_mixed_prefilled ''race_ml'' = PStr ''Latino|White''"
    "row_mixed_prefilled ''ambiguous_mixed'' = PInt 0"
    by (simp_all add: row_mixed_prefilled_def fx_row_def)
  have sep: "has_sep ''Latino|White''" by (simp add: has_sep_def)
  show ?thesis using run cells sep by simp
qed

lemma row_mixed_blank_flag_must_fill:
  "\<not> must_fill (fx_env d) fx_args row_mixed_blank_flag ''race_ml''"
  "must_fill (fx_env d) fx_args row_mixed_blank_flag ''ambiguous_mixed''"
  "\<not> must_fill (fx_env d) fx_args row_mixed_blank_flag ''prefer_not_to_label''"
  "\<not> must_fill (fx_env d) fx_args row_mixed_blank_flag ''conf_race''"
  "\<not> must_fill (fx_env d) fx_args row_mixed_blank_flag ''unknown_uncertain''"
  "\<not> must_fill (fx_env d) fx_args row_mixed_blank_flag ''cultural_markers''"
  "\<not> must_fill (fx_env d) fx_args row_mixed_blank_flag ''skin_tone_bin''"
  "\<not> must_fill (fx_env d) fx_args row_mixed_blank_flag ''conf_skin''"
  "\<not> must_fill (fx_env d) fx_args row_mixed_blank_flag ''conf_gender''"
  "\<not> must_fill (fx_env d) fx_args row_mixed_blank_flag ''annotation_notes''"
  by (simp_all add: row_mixed_blank_flag_def must_fill_upd_other must_fill_upd_same fx_mf
      blank_PStr strip_def is_space_def fx_args_fields)

lemma row_mixed_blank_flag_run:
  "process_row (fx_env d) fx_args fx_ranges row_mixed_blank_flag s =
     Inr (bump ''ambiguous_mixed''
            (set_cell ''ambiguous_mixed'' (PInt 1)
               (s\<lparr>cur_row := row_mixed_blank_flag, ml_val := ''Latino|White''\<rparr>)))"
proof -
  have cv: "conf_val (fx_env d) row_mixed_blank_flag = Inr (Fin (9/10))"
    by (simp add: conf_val_def row_mixed_blank_flag_def fx_row_def fx_not_blank_float)
  have ml: "py_str (fx_env d) (row_mixed_blank_flag ''race_ml'') = ''Latino|White''"
    by (simp add: row_mixed_blank_flag_def)
  have sep: "has_sep ''Latino|White''" by (simp add: has_sep_def)
  have cv': "conf_val (fx_env d) ((row_mixed_blank_flag)(''ambiguous_mixed'' := PInt 1)) =
               Inr (Fin (9/10))"
    using cv conf_val_cong [of "(row_mixed_blank_flag)(''ambiguous_mixed'' := PInt 1)"
        row_mixed_blank_flag "fx_env d"] by simp
  show ?thesis
    by (simp add: process_row_def skips row_mixed_blank_flag_must_fill fill_ambiguous_mixed_def
        ml sep fill_unknown_uncertain_skip [OF row_mixed_blank_flag_must_fill(5)] cv')
qed

text \<open>
  The amended C5 at a row with the label \<^verbatim>\<open>Latino|White\<close> and a blank flag: the flag
  written is 1.
\<close>

theorem ambiguous_mixed_iff_sep_when_filled_witness:
  "\<exists>d' s'.
     fill_table (fx_env (fx_table row_mixed_blank_flag)) fx_args fx_ranges fx_state
       (fx_table row_mixed_blank_flag) = Inr (d', s')
     \<and> 0 < length (rows (fx_table row_mixed_blank_flag))
     \<and> must_fill (fx_env (fx_table row_mixed_blank_flag)) fx_args
         (rows (ensure_columns (fx_table row_mixed_blank_flag)) ! 0) ''ambiguous_mixed''
     \<and> (rows d' ! 0) ''ambiguous_mixed'' =
         PInt (if has_sep (py_str (fx_env (fx_table row_mixed_blank_flag))
                             ((rows d' ! 0) ''race_ml'')) then 1 else 0)
     \<and> (rows d' ! 0) ''ambiguous_mixed'' = PInt 1"
proof -
  let ?E = "fx_env (fx_table row_mixed_blank_flag)"
  let ?s1 = "bump ''ambiguous_mixed''
            (set_cell ''ambiguous_mixed'' (PInt 1)
               (fx_state\<lparr>cur_row := row_mixed_blank_flag, ml_val := ''Latino|White''\<rparr>))"
  let ?d' = "\<lparr>columns = recognised, rows = [cur_row ?s1]\<rparr>"
  have run: "fill_table ?E fx_args fx_ranges fx_state (fx_table row_mixed_blank_flag) =
               Inr (?d', ?s1)"
    by (rule fill_table_single) (rule row_mixed_blank_flag_run)
  have len: "0 < length (rows (fx_table row_mixed_blank_flag))" by (simp add: fx_table_def)
  have mf: "must_fill ?E fx_args (rows (ensure_columns (fx_table row_mixed_blank_flag)) ! 0)
              ''ambiguous_mixed''"
    by (simp add: ensure_columns_fx_table) (simp add: fx_table_def row_mixed_blank_flag_must_fill)
  note r = ambiguous_mixed_iff_sep_when_filled [OF run len mf]
  have one: "(rows ?d' ! 0) ''ambiguous_mixed'' = PInt 1" by simp
  show ?thesis using run len mf r one by blast
qed

lemma args_rate_one_fields:
  "\<not> overwrite args_rate_one" "ambiguous_rate args_rate_one = 1"
  by (simp_all add: args_rate_one_def fx_args_def)

lemma row_MiddleEastern_must_fill:
  "must_fill (fx_env d) args_rate_one row_MiddleEastern ''race_ml''"
  "\<not> must_fill (fx_env d) args_rate_one row_MiddleEastern ''ambiguous_mixed''"
  "\<not> must_fill (fx_env d) args_rate_one row_MiddleEastern ''prefer_not_to_label''"
  "\<not> must_fill (fx_env d) args_rate_one row_MiddleEastern ''conf_race''"
  "\<not> must_fill (fx_env d) args_rate_one row_MiddleEastern ''unknown_uncertain''"
  "\<not> must_fill (fx_env d) args_rate_one row_MiddleEastern ''cultural_markers''"
  "\<not> must_fill (fx_env d) args_rate_one row_MiddleEastern ''skin_tone_bin''"
  "\<not> must_fill (fx_env d) args_rate_one row_MiddleEastern ''conf_skin''"
  "\<not> must_fill (fx_env d) args_rate_one row_MiddleEastern ''conf_gender''"
  "\<not> must_fill (fx_env d) args_rate_one row_MiddleEastern ''annotation_notes''"
  by (simp_all add: row_MiddleEastern_def must_fill_upd_other must_fill_upd_same
      fx_must_fill [OF args_rate_one_fields(1)] blank_PStr strip_def args_rate_one_fields)

lemma row_MiddleEastern_run:
  "process_row (fx_env d) args_rate_one fx_ranges row_MiddleEastern s =
     Inr (bump ''race_ml''
            (set_cell ''race_ml''
               (PStr (if snd (rng_random (rng_py s)) 0 mod 2 = 0 then ''MiddleEastern|SouthAsian''
                      else ''MiddleEastern|Latino''))
               (s\<lparr>cur_row := row_MiddleEastern,
                  ml_val := (if snd (rng_random (rng_py s)) 0 mod 2 = 0
                             then ''MiddleEastern|SouthAsian'' else ''MiddleEastern|Latino''),
                  rng_py := rng_next (snd (rng_random (rng_py s)))\<rparr>)))"
proof -
  let ?L = "if snd (rng_random (rng_py s)) 0 mod 2 = 0 then ''MiddleEastern|SouthAsian''
            else ''MiddleEastern|Latino''"
  let ?s1 = "bump ''race_ml''
               (set_cell ''race_ml'' (PStr ?L)
                  (s\<lparr>cur_row := row_MiddleEastern, ml_val := ?L,
                     rng_py := rng_next (snd (rng_random (rng_py s)))\<rparr>))"
  have base: "py_str (fx_env d) (row_MiddleEastern ''race_cat'') = ''MiddleEastern''"
    by (simp add: row_MiddleEastern_def)
  have b1: "fill_race_ml (fx_env d) args_rate_one row_MiddleEastern
              (s\<lparr>cur_row := row_MiddleEastern\<rparr>) = Inr ?s1"
    by (simp add: fill_race_ml_def row_MiddleEastern_must_fill base args_rate_one_fields
        choose_multilabel_MiddleEastern)
  have cv: "conf_val (fx_env d) (cur_row ?s1) = Inr (Fin (9/10))"
    by (simp add: conf_val_def row_MiddleEastern_def fx_row_def fx_not_blank_float)
  have b5: "fill_unknown_uncertain (fx_env d) args_rate_one row_MiddleEastern ?s1 = Inr ?s1"
    using row_MiddleEastern_must_fill(5) cv by (rule fill_unknown_uncertain_skip)
  show ?thesis
    unfolding process_row_def b1
    by (simp only: sum.case fill_ambiguous_mixed_skip [OF row_MiddleEastern_must_fill(2)]
        fill_prefer_not_to_label_skip [OF row_MiddleEastern_must_fill(3)]
        fill_conf_race_skip [OF row_MiddleEastern_must_fill(4)] b5
        fill_cultural_markers_skip [OF row_MiddleEastern_must_fill(6)]
        fill_skin_tone_bin_skip [OF row_MiddleEastern_must_fill(7)]
        fill_conf_skin_skip [OF row_MiddleEastern_must_fill(8)]
        fill_conf_gender_skip [OF row_MiddleEastern_must_fill(9)]
        fill_annotation_notes_skip [OF row_MiddleEastern_must_fill(10)])
qed

lemma fx_draws_even: "snd (rng_random fx_draws) 0 mod 2 = 0"
  by (simp add: fx_random) (simp add: fx_draws_def)

text \<open>
  C7 as stated fails. With every raw draw equal to 1 the uniform draw is below the rate 1.0
  and \<^verbatim>\<open>rng.choice\<close> takes the second of the two candidate pairs,
  \<^verbatim>\<open>("Latino", "MiddleEastern")\<close>: the label written is \<^verbatim>\<open>MiddleEastern|Latino\<close>.
\<close>

theorem MiddleEastern_Latino_counterexample:
  "\<exists>d' s'.
     fill_table (fx_env (fx_table row_MiddleEastern)) args_rate_one fx_ranges
       (init_state odd_draws odd_draws) (fx_table row_MiddleEastern) = Inr (d', s')
     \<and> (rows (fx_table row_MiddleEastern) ! 0) ''race_cat'' = PStr ''MiddleEastern''
     \<and> ambiguous_rate args_rate_one = 1
     \<and> (rows d' ! 0) ''race_ml'' = PStr ''MiddleEastern|Latino''
     \<and> (rows d' ! 0) ''race_ml'' \<noteq> PStr ''MiddleEastern|SouthAsian''"
proof -
  let ?E = "fx_env (fx_table row_MiddleEastern)"
  obtain s1 where
    pr: "process_row ?E args_rate_one fx_ranges row_MiddleEastern (init_state odd_draws odd_draws)
           = Inr s1"
    and cell: "cur_row s1 ''race_ml'' = PStr ''MiddleEastern|Latino''"
    by (simp add: row_MiddleEastern_run init_state_def odd_random)
  have run: "fill_table ?E args_rate_one fx_ranges (init_state odd_draws odd_draws)
               (fx_table row_MiddleEastern)
             = Inr (\<lparr>columns = recognised, rows = [cur_row s1]\<rparr>, s1)"
    using pr by (rule fill_table_single)
  have base: "(rows (fx_table row_MiddleEastern) ! 0) ''race_cat'' = PStr ''MiddleEastern''"
    by (simp add: fx_table_def row_MiddleEastern_def)
  show ?thesis using run cell base args_rate_one_fields(2) by simp
qed

text \<open>
  The amended C7 at a row with the base category \<^verbatim>\<open>MiddleEastern\<close> and a blank
  \<^verbatim>\<open>race_ml\<close>, with raw draws that are even: the label written is
  \<^verbatim>\<open>MiddleEastern|SouthAsian\<close>.
\<close>

theorem MiddleEastern_race_ml_two_neighbours_witness:
  "\<exists>d' s'.
     fill_table (fx_env (fx_table row_MiddleEastern)) args_rate_one fx_ranges fx_state
       (fx_table row_MiddleEastern) = Inr (d', s')
     \<and> 0 < length (rows (fx_table row_MiddleEastern))
     \<and> must_fill (fx_env (fx_table row_MiddleEastern)) args_rate_one
         (rows (ensure_columns (fx_table row_MiddleEastern)) ! 0) ''race_ml''
     \<and> py_str (fx_env (fx_table row_MiddleEastern))
         ((rows (ensure_columns (fx_table row_MiddleEastern)) ! 0) ''race_cat'')
         = ''MiddleEastern''
     \<and> ambiguous_rate args_rate_one = 1
     \<and> ((rows d' ! 0) ''race_ml'' = PStr ''MiddleEastern|SouthAsian''
        \<or> (rows d' ! 0) ''race_ml'' = PStr ''MiddleEastern|Latino'')
     \<and> (rows d' ! 0) ''race_ml'' = PStr ''MiddleEastern|SouthAsian''"
proof -
  let ?E = "fx_env (fx_table row_MiddleEastern)"
  obtain s1 where
    pr: "process_row ?E args_rate_one fx_ranges row_MiddleEastern fx_state = Inr s1"
    and cell: "cur_row s1 ''race_ml'' = PStr ''MiddleEastern|SouthAsian''"
    by (simp add: row_MiddleEastern_run fx_state_def init_state_def fx_draws_even)
  let ?d' = "\<lparr>columns = recognised, rows = [cur_row s1]\<rparr>"
  have run: "fill_table ?E args_rate_one fx_ranges fx_state (fx_table row_MiddleEastern)
             = Inr (?d', s1)"
    using pr by (rule fill_table_single)
  have len: "0 < length (rows (fx_table row_MiddleEastern))" by (simp add: fx_table_def)
  have mf: "must_fill ?E args_rate_one (rows (ensure_columns (fx_table row_MiddleEastern)) ! 0)
              ''race_ml''"
    by (simp add: ensure_columns_fx_table) (simp add: fx_table_def row_MiddleEastern_must_fill)
  have base: "py_str ?E ((rows (ensure_columns (fx_table row_MiddleEastern)) ! 0) ''race_cat'')
                = ''MiddleEastern''"
    by (simp add: ensure_columns_fx_table) (simp add: fx_table_def row_MiddleEastern_def)
  note r = MiddleEastern_race_ml_two_neighbours [OF run len mf base args_rate_one_fields(2)]
  have c: "(rows ?d' ! 0) ''race_ml'' = PStr ''MiddleEastern|SouthAsian''" using cell by simp
  show ?thesis using run len mf base args_rate_one_fields(2) r c by blast
qed



lemma round3_wide: "round3 (Fin (11/4)) = Fin (11/4)"
  by (simp add: round_half_even_def)








text \<open>
  The amended C4 at the table of one filled row with all sixteen columns, under the
  default command line: the run saves the table it read.
\<close>

theorem filled_table_unchanged_witness:
  "0 \<le> seed fx_args \<and> seed fx_args \<le> 4294967295
   \<and> urange (fx_env (fx_table fx_row)) (lo_conf_range fx_args) = Inr (Fin (30/100), Fin (55/100))
   \<and> urange (fx_env (fx_table fx_row)) (mid_conf_range fx_args) = Inr (Fin (55/100), Fin (80/100))
   \<and> urange (fx_env (fx_table fx_row)) (hi_conf_range fx_args) = Inr (Fin (80/100), Fin 1)
   \<and> read_csv (fx_env (fx_table fx_row)) (inp fx_args) = Inr (fx_table fx_row)
   \<and> set recognised \<subseteq> set (columns (fx_table fx_row))
   \<and> rows (fx_table fx_row) \<noteq> []
   \<and> list_all (filled (fx_env (fx_table fx_row))) (rows (fx_table fx_row))
   \<and> flags_castable (fx_env (fx_table fx_row)) (fx_table fx_row)
   \<and> \<not> overwrite fx_args \<and> \<not> dry_run fx_args
   \<and> \<not> mkdir_fails (fx_env (fx_table fx_row)) (outp fx_args)
   \<and> \<not> to_csv_fails (fx_env (fx_table fx_row)) (outp fx_args)
   \<and> main_1 (fx_env (fx_table fx_row)) fx_args fx_draws =
       ([SummaryHeader, SummaryTable, SuccessNotice], Inr (Saved (fx_table fx_row)))
   \<and> (\<exists>s'. fill_table (fx_env (fx_table fx_row)) fx_args
              ((Fin (30/100), Fin (55/100)), (Fin (55/100), Fin (80/100)), (Fin (80/100), Fin 1))
              fx_state (fx_table fx_row) = Inr (fx_table fx_row, s')
          \<and> rng_py s' = fx_draws \<and> rng_np s' = fx_draws \<and> filled_counts s' = (\<lambda>c. 0))"
proof -
  let ?E = "fx_env (fx_table fx_row)"
  have s1: "0 \<le> seed fx_args" and s2: "seed fx_args \<le> 4294967295"
    by (simp_all add: fx_args_fields)
  have h1: "urange ?E (lo_conf_range fx_args) = Inr (Fin (30/100), Fin (55/100))"
    by (simp add: fx_args_fields fx_urange)
  have h2: "urange ?E (mid_conf_range fx_args) = Inr (Fin (55/100), Fin (80/100))"
    by (simp add: fx_args_fields fx_urange)
  have h3: "urange ?E (hi_conf_range fx_args) = Inr (Fin (80/100), Fin 1)"
    by (simp add: fx_args_fields fx_urange)
  have h4: "read_csv ?E (inp fx_args) = Inr (fx_table fx_row)"
    by (simp add: fx_args_fields fx_env_fields)
  have h5: "set recognised \<subseteq> set (columns (fx_table fx_row))" by (simp add: fx_table_def)
  have h6: "rows (fx_table fx_row) \<noteq> []" by (simp add: fx_table_def)
  have h7: "list_all (filled ?E) (rows (fx_table fx_row))"
    by (simp add: fx_table_def filled_fx_variant)
  have hc: "flags_castable ?E (fx_table fx_row)"
    unfolding fx_table_def by (rule flags_castable_single) (rule fx_flag_cells)+
  note h8 = fx_args_fields(1) and h9 = fx_args_fields(2)
  have h10: "\<not> mkdir_fails ?E (outp fx_args)" by (rule fx_env_fields)
  have h11: "\<not> to_csv_fails ?E (outp fx_args)" by (rule fx_env_fields)
  note r = filled_table_unchanged [OF s1 s2 h1 h2 h3 h4 h5 h6 h7 hc h8 h9 h10 h11, of fx_draws]
  have sd: "py_seeded ?E (seed fx_args) = fx_draws" "np_seeded ?E (seed fx_args) = fx_draws"
    by (rule fx_env_fields)+
  from r have r': "main_1 ?E fx_args fx_draws =
       ([SummaryHeader, SummaryTable, SuccessNotice], Inr (Saved (fx_table fx_row)))
     \<and> (\<exists>s'. fill_table ?E fx_args
              ((Fin (30/100), Fin (55/100)), (Fin (55/100), Fin (80/100)), (Fin (80/100), Fin 1))
              fx_state (fx_table fx_row) = Inr (fx_table fx_row, s')
          \<and> rng_py s' = fx_draws \<and> rng_np s' = fx_draws \<and> filled_counts s' = (\<lambda>c. 0))"
    unfolding sd fx_state_seeded .
  show ?thesis using s1 s2 h1 h2 h3 h4 h5 h6 h7 hc h8 h9 h10 h11 r' by blast
qed

lemma ensure_columns_table_no_split:
  "ensure_columns table_no_split =
     \<lparr>columns = columns table_no_split @ [''split''], rows = [fx_row(''split'' := PStr [])]\<rparr>"
  by (simp add: ensure_columns_def recognised_def safe_col_def table_no_split_def)

lemma filled_fx_row_no_split: "filled (fx_env d) (fx_row(''split'' := PStr []))"
  by (simp add: filled_def derived_def fx_row_def blank_PStr strip_def
      is_space_def fx_not_blank_float not_blank_zero)

text \<open>
  C4 as stated fails. A table whose ten derived columns are all filled but which has no
  \<^verbatim>\<open>split\<close> column is not written back as it was read: \<^verbatim>\<open>safe_col\<close> adds the missing
  column, blank, and the table saved has sixteen columns where the input had fifteen.
\<close>

theorem filled_table_gains_column_counterexample:
  "list_all (filled (fx_env table_no_split)) (rows table_no_split)
   \<and> \<not> overwrite fx_args
   \<and> read_csv (fx_env table_no_split) (inp fx_args) = Inr table_no_split
   \<and> (\<exists>d'. main_1 (fx_env table_no_split) fx_args fx_draws =
              ([SummaryHeader, SummaryTable, SuccessNotice], Inr (Saved d'))
          \<and> columns d' = columns table_no_split @ [''split'']
          \<and> d' \<noteq> table_no_split)"
proof -
  let ?E = "fx_env table_no_split"
  let ?r = "fx_row(''split'' := PStr [])"
  let ?d' = "\<lparr>columns = columns table_no_split @ [''split''], rows = [?r]\<rparr>"
  have f: "list_all (filled ?E) (rows table_no_split)"
    by (simp add: table_no_split_def filled_fx_variant)
  have rd: "read_csv ?E (inp fx_args) = Inr table_no_split"
    by (simp add: fx_args_fields fx_env_fields)
  obtain s' where pr: "process_rows ?E fx_args fx_ranges [?r] fx_state = Inr ([?r], s')"
    using process_rows_filled [of ?E "[?r]" fx_args fx_ranges fx_state]
    by (auto simp: filled_fx_row_no_split fx_args_fields)
  have ft: "fill_table ?E fx_args fx_ranges fx_state table_no_split = Inr (?d', s')"
    unfolding fill_table_def ensure_columns_table_no_split using pr by simp
  have fc: "flags_castable ?E ?d'"
    by (rule flags_castable_single) (simp_all add: fx_flag_cells)
  have run: "main_1 ?E fx_args fx_draws =
               ([SummaryHeader, SummaryTable, SuccessNotice], Inr (Saved ?d'))"
  proof (rule main_1_saved [where sout = s' and d = table_no_split])
    show "fill_table ?E fx_args
            ((Fin (30/100), Fin (55/100)), (Fin (55/100), Fin (80/100)), (Fin (80/100), Fin 1))
            ((init_state (py_seeded ?E (seed fx_args)) fx_draws)
               \<lparr>rng_np := np_seeded ?E (seed fx_args)\<rparr>) table_no_split = Inr (?d', s')"
      using ft by (simp add: fx_env_fields fx_state_seeded fx_ranges_def)
    show "flags_castable ?E ?d'" by (rule fc)
  qed (simp_all add: fx_args_fields fx_urange fx_env_fields)
  have ne: "?d' \<noteq> table_no_split"
    by (simp add: table_no_split_def)
  show ?thesis using f rd run ne fx_args_fields(1) by simp
qed

lemma row_text_conf_raises:
  "process_row (fx_env d) fx_args R row_text_conf s = Inl ValueError"
proof -
  have mf: "\<not> must_fill (fx_env d) fx_args row_text_conf ''race_ml''"
    "\<not> must_fill (fx_env d) fx_args row_text_conf ''ambiguous_mixed''"
    "\<not> must_fill (fx_env d) fx_args row_text_conf ''prefer_not_to_label''"
    "\<not> must_fill (fx_env d) fx_args row_text_conf ''conf_race''"
    by (simp_all add: row_text_conf_def must_fill_upd_other must_fill_upd_same fx_mf
        blank_PStr strip_def is_space_def fx_args_fields)
  have cv: "conf_val (fx_env d) row_text_conf = Inl ValueError"
    by (simp add: conf_val_def row_text_conf_def blank_PStr strip_def is_space_def
        fx_env_def fx_floats_def)
  show ?thesis
    by (simp add: process_row_def mf fill_race_ml_skip fill_ambiguous_mixed_skip
        fill_prefer_not_to_label_skip fill_conf_race_skip fill_unknown_uncertain_def cv)
qed

text \<open>
  Four inputs the amended C4 leaves out, all with filled tables in fill-blanks mode: a seed
  outside \<open>[0, 2^32 - 1]\<close> makes line 112 raise ValueError, a \<^verbatim>\<open>conf_race\<close> that is a text
  and no number makes line 172 raise ValueError, a table without rows makes the summary
  divide by zero (line 258), and an infinite \<^verbatim>\<open>ambiguous_mixed\<close> makes the cast of line 264
  raise ValueError. None of these runs writes anything.
\<close>

lemma seed_out_of_range_raises:
  assumes "seed a < 0 \<or> 4294967295 < seed a"
  shows "main_1 e a np0 = ([], Inl ValueError)"
  using assms by (simp add: main_1_def)

lemma text_conf_race_raises:
  "main_1 (fx_env (fx_table row_text_conf)) fx_args np0 = ([], Inl ValueError)"
  by (rule main_1_fx_error [where hi = "(Fin (80/100), Fin 1)"])
    (simp_all add: fx_args_fields fx_urange row_text_conf_raises)

lemma empty_table_raises:
  assumes "0 \<le> seed a" "seed a \<le> 4294967295"
    and "urange e (lo_conf_range a) = Inr lo"
    and "urange e (mid_conf_range a) = Inr mid"
    and "urange e (hi_conf_range a) = Inr hi"
    and "read_csv e (inp a) = Inr d"
    and "rows d = []"
  shows "main_1 e a np0 = ([SummaryHeader], Inl ZeroDivisionError)"
proof -
  have "length (rows (ensure_columns d)) = 0"
    using assms(7) by simp
  then have "rows (ensure_columns d) = []"
    by (simp only: length_0_conv)
  then show ?thesis using assms(1-6) by (simp add: main_1_def fill_table_def)
qed

lemma filled_row_inf_flag: "filled (fx_env d) row_inf_flag"
  by (simp add: filled_def derived_def row_inf_flag_def fx_row_def blank_def py_str.simps
      strip_def is_space_def fx_env_def str_int_def str_nat.simps digit_char_def)

lemma inf_flag_raises:
  "main_1 (fx_env (fx_table row_inf_flag)) fx_args np0 =
     ([SummaryHeader, SummaryCut 0], Inl ValueError)"
proof -
  let ?E = "fx_env (fx_table row_inf_flag)"
  let ?s1 = "fx_state\<lparr>cur_row := row_inf_flag,
                      ml_val := py_str ?E (row_inf_flag ''race_ml'')\<rparr>"
  have pr: "process_row ?E fx_args fx_ranges row_inf_flag fx_state = Inr ?s1"
    using filled_row_inf_flag fx_args_fields(1) by (rule process_row_filled)
  have ft: "fill_table ?E fx_args fx_ranges fx_state (fx_table row_inf_flag)
              = Inr (\<lparr>columns = recognised, rows = [cur_row ?s1]\<rparr>, ?s1)"
    using pr by (rule fill_table_single)
  have nc: "\<not> int_castable ?E [row_inf_flag] ''ambiguous_mixed''"
    by (simp add: int_castable_def row_inf_flag_def)
  show ?thesis
    using ft nc
    by (simp add: main_1_def fx_args_fields fx_urange fx_env_fields fx_state_seeded
        fx_ranges_def flag_columns_def)
qed

lemma upto_1_5: "[1..(5::int)] = [1, 2, 3, 4, 5]"
  by (simp add: upto.simps)

lemma upto_1_7: "[1..(7::int)] = [1, 2, 3, 4, 5, 6, 7]"
  by (simp add: upto.simps)

lemma random_bin_Black_five: "random_bin g ''Black'' 5 = Inl ValueError"
  by (simp add: random_bin_def upto_1_5 np_choice_def)

lemma random_bin_Black_seven: "random_bin fx_draws ''Black'' 7 = Inr (4, fx_draws)"
  by (simp add: random_bin_def upto_1_7 np_choice_def fx_random)

lemma args_five_bins_fields:
  "\<not> overwrite args_five_bins" "\<not> dry_run args_five_bins" "inp args_five_bins = ''labels.csv''"
  "lo_conf_range args_five_bins = ''0.30,0.55''" "mid_conf_range args_five_bins = ''0.55,0.80''"
  "hi_conf_range args_five_bins = ''0.80,1.00''" "skin_tone_method args_five_bins = Random"
  "skin_bins args_five_bins = 5" "seed args_five_bins = 42"
  by (simp_all add: args_five_bins_def fx_args_def)

lemma args_brightness_five_fields:
  "\<not> overwrite args_brightness_five" "\<not> dry_run args_brightness_five"
  "inp args_brightness_five = ''labels.csv''"
  "lo_conf_range args_brightness_five = ''0.30,0.55''"
  "mid_conf_range args_brightness_five = ''0.55,0.80''"
  "hi_conf_range args_brightness_five = ''0.80,1.00''"
  "skin_tone_method args_brightness_five = Brightness"
  "skin_bins args_brightness_five = 5" "seed args_brightness_five = 42"
  by (simp_all add: args_brightness_five_def fx_args_def)

lemma args_brightness_fields:
  "\<not> overwrite args_brightness" "\<not> dry_run args_brightness"
  "inp args_brightness = ''labels.csv''"
  "lo_conf_range args_brightness = ''0.30,0.55''"
  "mid_conf_range args_brightness = ''0.55,0.80''"
  "hi_conf_range args_brightness = ''0.80,1.00''"
  "skin_tone_method args_brightness = Brightness"
  "skin_bins args_brightness = 7" "seed args_brightness = 42"
  by (simp_all add: args_brightness_def fx_args_def)

lemma row_blank_skin_must_fill:
  assumes "\<not> overwrite a"
  shows
  "\<not> must_fill (fx_env d) a row_blank_skin ''race_ml''"
  "\<not> must_fill (fx_env d) a row_blank_skin ''ambiguous_mixed''"
  "\<not> must_fill (fx_env d) a row_blank_skin ''prefer_not_to_label''"
  "\<not> must_fill (fx_env d) a row_blank_skin ''conf_race''"
  "\<not> must_fill (fx_env d) a row_blank_skin ''unknown_uncertain''"
  "\<not> must_fill (fx_env d) a row_blank_skin ''cultural_markers''"
  "must_fill (fx_env d) a row_blank_skin ''skin_tone_bin''"
  by (simp_all add: row_blank_skin_def must_fill_upd_other must_fill_upd_same
      fx_must_fill [OF assms] blank_PStr strip_def assms)

lemma row_blank_skin_cells:
  "py_str (fx_env d) (row_blank_skin ''race_ml'') = ''Black''"
  "py_str (fx_env d) (row_blank_skin ''race_cat'') = ''Black''"
  "row_blank_skin ''rel_path'' = PStr ''missing.jpg''"
  "conf_val (fx_env d) row_blank_skin = Inr (Fin (9/10))"
  by (simp_all add: row_blank_skin_def fx_row_def conf_val_def fx_not_blank_float)

lemma fx_no_image: "brightness_to_bin (fx_env d) p n = None"
  by (simp add: brightness_to_bin_def fx_env_fields)

lemma not_blank_missing: "\<not> blank e (PStr ''missing.jpg'')"
  by (simp add: blank_PStr strip_def is_space_def)

lemma row_blank_skin_raises:
  assumes o: "\<not> overwrite a" and n: "skin_bins a = 5"
  shows "process_row (fx_env d) a R row_blank_skin s = Inl ValueError"
proof -
  note mf = row_blank_skin_must_fill [OF o, of d]
  let ?s1 = "s\<lparr>cur_row := row_blank_skin, ml_val := ''Black''\<rparr>"
  have b1: "fill_race_ml (fx_env d) a row_blank_skin (s\<lparr>cur_row := row_blank_skin\<rparr>) = Inr ?s1"
    by (simp add: fill_race_ml_skip [OF mf(1)] row_blank_skin_cells)
  have b5: "fill_unknown_uncertain (fx_env d) a row_blank_skin ?s1 = Inr ?s1"
    by (rule fill_unknown_uncertain_skip [OF mf(5)]) (simp add: row_blank_skin_cells)
  have att: "brightness_attempt (fx_env d) a row_blank_skin = Inr None"
    by (simp add: brightness_attempt_def row_blank_skin_cells fx_no_image)
  have b7: "fill_skin_tone_bin (fx_env d) a row_blank_skin ?s1 = Inl ValueError"
    by (simp add: fill_skin_tone_bin_def mf(7) att row_blank_skin_cells n random_bin_Black_five)
  show ?thesis
    unfolding process_row_def b1
    by (simp only: sum.case fill_ambiguous_mixed_skip [OF mf(2)]
        fill_prefer_not_to_label_skip [OF mf(3)] fill_conf_race_skip [OF mf(4)] b5
        fill_cultural_markers_skip [OF mf(6)] b7)
qed

text \<open>
  C1. The claim is what the option promises (\<^verbatim>\<open>--skin-bins\<close>: "bins labelled 1..N"), and
  the code misses it: the two race-weighted tables of the random strategy have seven
  entries whatever N is, and \<^verbatim>\<open>np.random.choice\<close> rejects a probability vector whose
  size is not that of the population. With five bins the random strategy raises
  ValueError for the race \<^verbatim>\<open>Black\<close> whatever is drawn, and the run on a table of one such
  row with a blank \<^verbatim>\<open>skin_tone_bin\<close> ends with that error and writes nothing.
\<close>

theorem five_bins_Black_row_raises:
  "random_bin g ''Black'' 5 = Inl ValueError
   \<and> main_1 (fx_env (fx_table row_blank_skin)) args_five_bins np0 = ([], Inl ValueError)"
proof -
  have "process_row (fx_env (fx_table row_blank_skin)) args_five_bins
          ((Fin (30/100), Fin (55/100)), (Fin (55/100), Fin (80/100)), (Fin (80/100), Fin 1))
          row_blank_skin fx_state = Inl ValueError"
    using args_five_bins_fields(1,8) by (rule row_blank_skin_raises)
  then have "main_1 (fx_env (fx_table row_blank_skin)) args_five_bins np0 = ([], Inl ValueError)"
    by (intro main_1_fx_error) (simp_all add: args_five_bins_fields fx_urange)
  then show ?thesis by (simp add: random_bin_Black_five)
qed

text \<open>
  C10. Under the brightness strategy a row whose image cannot be decoded gets no bin from
  the estimator, and the engine turns to the random strategy; the claim adds that no
  error is raised. With five bins and the race \<^verbatim>\<open>Black\<close> the random strategy it falls
  back to raises ValueError (the defect of C1), and the run ends with that error.
\<close>

theorem brightness_fallback_raises:
  "brightness_to_bin (fx_env (fx_table row_blank_skin))
     (resolve_path (fx_env (fx_table row_blank_skin)) ''missing.jpg'')
     (skin_bins args_brightness_five) = None
   \<and> brightness_attempt (fx_env (fx_table row_blank_skin)) args_brightness_five row_blank_skin
       = Inr None
   \<and> main_1 (fx_env (fx_table row_blank_skin)) args_brightness_five np0 = ([], Inl ValueError)"
proof -
  have "process_row (fx_env (fx_table row_blank_skin)) args_brightness_five
          ((Fin (30/100), Fin (55/100)), (Fin (55/100), Fin (80/100)), (Fin (80/100), Fin 1))
          row_blank_skin fx_state = Inl ValueError"
    using args_brightness_five_fields(1,8) by (rule row_blank_skin_raises)
  then have "main_1 (fx_env (fx_table row_blank_skin)) args_brightness_five np0
               = ([], Inl ValueError)"
    by (intro main_1_fx_error) (simp_all add: args_brightness_five_fields fx_urange)
  moreover have "brightness_attempt (fx_env (fx_table row_blank_skin)) args_brightness_five
                   row_blank_skin = Inr None"
    by (simp add: brightness_attempt_def row_blank_skin_cells fx_no_image)
  ultimately show ?thesis by (simp add: fx_no_image)
qed

lemma row_blank_skin_conf_must_fill:
  "\<not> must_fill (fx_env d) args_brightness row_blank_skin_conf ''race_ml''"
  "\<not> must_fill (fx_env d) args_brightness row_blank_skin_conf ''ambiguous_mixed''"
  "\<not> must_fill (fx_env d) args_brightness row_blank_skin_conf ''prefer_not_to_label''"
  "\<not> must_fill (fx_env d) args_brightness row_blank_skin_conf ''conf_race''"
  "\<not> must_fill (fx_env d) args_brightness row_blank_skin_conf ''unknown_uncertain''"
  "\<not> must_fill (fx_env d) args_brightness row_blank_skin_conf ''cultural_markers''"
  "must_fill (fx_env d) args_brightness row_blank_skin_conf ''skin_tone_bin''"
  "must_fill (fx_env d) args_brightness row_blank_skin_conf ''conf_skin''"
  "\<not> must_fill (fx_env d) args_brightness row_blank_skin_conf ''conf_gender''"
  "\<not> must_fill (fx_env d) args_brightness row_blank_skin_conf ''annotation_notes''"
  by (simp_all add: row_blank_skin_conf_def must_fill_upd_other must_fill_upd_same
      fx_must_fill [OF args_brightness_fields(1)] blank_PStr strip_def args_brightness_fields)

lemma row_blank_skin_conf_cells:
  "py_str (fx_env d) (row_blank_skin_conf ''race_ml'') = ''Black''"
  "py_str (fx_env d) (row_blank_skin_conf ''race_cat'') = ''Black''"
  "row_blank_skin_conf ''rel_path'' = PStr ''missing.jpg''"
  "conf_val (fx_env d) row_blank_skin_conf = Inr (Fin (9/10))"
  by (simp_all add: row_blank_skin_conf_def fx_row_def conf_val_def fx_not_blank_float)

lemma row_blank_skin_conf_attempt:
  "brightness_attempt (fx_env d) args_brightness row_blank_skin_conf = Inr None"
  by (simp add: brightness_attempt_def row_blank_skin_conf_cells fx_no_image)

lemma str_int_4: "str_int 4 = ''4''"
  by (simp add: str_int_def str_nat.simps digit_char_def)

lemma uniform_brightness_band:
  "rng_uniform fx_draws (Fin (3/5)) (Fin (9/10)) = (Fin (33/40), fx_draws)"
  by (simp add: rng_uniform_def fx_random)

lemma round3_33_40: "round3 (Fin (33/40)) = Fin (33/40)"
  by (simp add: round_half_even_def)

lemma row_blank_skin_conf_run:
  "process_row (fx_env d) args_brightness R row_blank_skin_conf fx_state =
     Inr (bump ''conf_skin''
            (set_cell ''conf_skin'' (PFloat (Fin (33/40)))
               ((bump ''skin_tone_bin''
                   (set_cell ''skin_tone_bin'' (PStr ''4'')
                      (fx_state\<lparr>cur_row := row_blank_skin_conf, ml_val := ''Black'',
                                 rng_np := fx_draws\<rparr>)))\<lparr>rng_py := fx_draws\<rparr>)))"
proof -
  note mf = row_blank_skin_conf_must_fill [of d]
  let ?s1 = "fx_state\<lparr>cur_row := row_blank_skin_conf, ml_val := ''Black''\<rparr>"
  let ?s7 = "bump ''skin_tone_bin''
               (set_cell ''skin_tone_bin'' (PStr ''4'')
                  (fx_state\<lparr>cur_row := row_blank_skin_conf, ml_val := ''Black'',
                             rng_np := fx_draws\<rparr>))"
  let ?s8 = "bump ''conf_skin'' (set_cell ''conf_skin'' (PFloat (Fin (33/40)))
               (?s7\<lparr>rng_py := fx_draws\<rparr>))"
  have g: "rng_np fx_state = fx_draws" "rng_py fx_state = fx_draws"
    by (simp_all add: fx_state_def init_state_def)
  have b1: "fill_race_ml (fx_env d) args_brightness row_blank_skin_conf
              (fx_state\<lparr>cur_row := row_blank_skin_conf\<rparr>) = Inr ?s1"
    by (simp add: fill_race_ml_skip [OF mf(1)] row_blank_skin_conf_cells)
  have b5: "fill_unknown_uncertain (fx_env d) args_brightness row_blank_skin_conf ?s1 = Inr ?s1"
    by (rule fill_unknown_uncertain_skip [OF mf(5)]) (simp add: row_blank_skin_conf_cells)
  have b7: "fill_skin_tone_bin (fx_env d) args_brightness row_blank_skin_conf ?s1 = Inr ?s7"
    by (simp add: fill_skin_tone_bin_def mf(7) row_blank_skin_conf_attempt
        row_blank_skin_conf_cells args_brightness_fields g random_bin_Black_seven str_int_4)
  have b8: "fill_conf_skin (fx_env d) args_brightness row_blank_skin_conf ?s7 = ?s8"
    by (simp add: fill_conf_skin_def mf(8) args_brightness_fields fx_env_fields g
        uniform_brightness_band round_half_even_def)
  show ?thesis
    unfolding process_row_def b1
    by (simp only: sum.case fill_ambiguous_mixed_skip [OF mf(2)]
        fill_prefer_not_to_label_skip [OF mf(3)] fill_conf_race_skip [OF mf(4)] b5
        fill_cultural_markers_skip [OF mf(6)] b7 b8
        fill_conf_gender_skip [OF mf(9)] fill_annotation_notes_skip [OF mf(10)])
qed

text \<open>
  C8. The claim is what the comment of line 221 says ("higher confidence if
  brightness-based succeeded; else moderate"), and the code misses it: line 222 tests the
  configured strategy and that the bin cell is neither empty nor \<^verbatim>\<open>Unknown\<close>, not whether
  the brightness estimate produced the bin. On a machine with PIL and no image file, with
  the brightness strategy configured, the estimator gives no bin for the row, the random
  strategy writes bin 4, and \<^verbatim>\<open>conf_skin\<close> is drawn from \<open>[0.6, 0.9]\<close>: with the draw 3/4
  it is 0.825, outside the \<open>[0.5, 0.8]\<close> the claim gives a row that fell back.
\<close>

theorem fallback_row_gets_brightness_confidence:
  "brightness_attempt (fx_env (fx_table row_blank_skin_conf)) args_brightness
     row_blank_skin_conf = Inr None
   \<and> (\<exists>d'. main_1 (fx_env (fx_table row_blank_skin_conf)) args_brightness np0 =
              ([SummaryHeader, SummaryTable, SuccessNotice], Inr (Saved d'))
          \<and> (rows d' ! 0) ''skin_tone_bin'' = PStr ''4''
          \<and> (rows d' ! 0) ''conf_skin'' = PFloat (Fin (33/40))
          \<and> \<not> conf_in (5/10) (8/10) ((rows d' ! 0) ''conf_skin''))"
proof -
  let ?E = "fx_env (fx_table row_blank_skin_conf)"
  let ?R = "((Fin (30/100), Fin (55/100)), (Fin (55/100), Fin (80/100)), (Fin (80/100), Fin 1))"
  obtain s1 where pr: "process_row ?E args_brightness ?R row_blank_skin_conf fx_state = Inr s1"
    and c1: "cur_row s1 ''skin_tone_bin'' = PStr ''4''"
    and c2: "cur_row s1 ''conf_skin'' = PFloat (Fin (33/40))"
    and c3: "cur_row s1 ''ambiguous_mixed'' = PInt 0"
      "cur_row s1 ''unknown_uncertain'' = PInt 0"
      "cur_row s1 ''prefer_not_to_label'' = PInt 0"
    using that [OF row_blank_skin_conf_run]
    by (simp add: row_blank_skin_conf_def fx_row_def)
  have hi: "urange ?E (hi_conf_range args_brightness) = Inr (Fin (80/100), Fin 1)"
    by (simp add: args_brightness_fields fx_urange)
  have run: "main_1 ?E args_brightness np0 =
           ([SummaryHeader, SummaryTable, SuccessNotice],
            Inr (Saved \<lparr>columns = recognised, rows = [cur_row s1]\<rparr>))"
    using args_brightness_fields(4,5) hi args_brightness_fields(3,2) pr
      args_brightness_fields(9)
  proof (rule main_1_fx_saved)
    show "flags_castable ?E \<lparr>columns = recognised, rows = [cur_row s1]\<rparr>"
      by (rule flags_castable_single) (simp_all add: c3)
  qed
  show ?thesis using run c1 c2 by (simp add: row_blank_skin_conf_attempt)
qed

lemma nan_rel_path_raises:
  assumes "skin_tone_method a = Brightness" "PIL_OK e" "row0 ''rel_path'' = PFloat NaN"
  shows "brightness_attempt e a row0 = Inl TypeError"
  using assms by (simp add: brightness_attempt_def blank_def strip_def is_space_def)

lemma last_cumsum: "p \<noteq> [] \<Longrightarrow> last (cumsum acc p) = acc + sum_list p"
proof (induction p arbitrary: acc)
  case Nil
  then show ?case by simp
next
  case (Cons x xs)
  show ?case
  proof (cases "xs = []")
    case True
    then show ?thesis by simp
  next
    case False
    then have "cumsum (acc + x) xs \<noteq> []" by (cases xs) simp_all
    then show ?thesis using Cons.IH [OF False, of "acc + x"] by (simp add: add.assoc)
  qed
qed

lemma length_cumsum [simp]: "length (cumsum acc p) = length p"
  by (induction p arbitrary: acc) simp_all

lemma takeWhile_shorter:
  assumes "xs \<noteq> []" "\<not> P (last xs)"
  shows "length (takeWhile P xs) < length xs"
proof (rule ccontr)
  assume "\<not> length (takeWhile P xs) < length xs"
  then have "length (takeWhile P xs) = length xs"
    using length_takeWhile_le [of P xs] by simp
  then have "takeWhile P xs = xs"
    by (metis takeWhile_eq_take take_all order_refl)
  then have "\<forall>x\<in>set xs. P x" by (metis set_takeWhileD)
  then show False using assms by simp
qed

lemma np_choice_returns:
  assumes a: "a \<noteq> []" and len: "length p = length a"
    and nonneg: "\<not> list_ex (\<lambda>x. x < 0) p" and total: "sum_list p = 1"
  shows "\<exists>b g'. np_choice g a p = Inr (b, g') \<and> b \<in> set a"
proof -
  obtain u g1 where r: "rng_random g = (u, g1)" by (cases "rng_random g")
  have u: "u < 1" using rng_random_less_1 [of g] r by simp
  have p: "p \<noteq> []" using a len by auto
  let ?cs = "cumsum 0 p"
  let ?cdf = "map (\<lambda>c. c / last ?cs) ?cs"
  have l: "last ?cs = 1" using last_cumsum [OF p, of 0] total by simp
  have ne: "?cdf \<noteq> []" using p by (cases p) simp_all
  have "last ?cdf = 1" using ne l by (simp add: last_map)
  then have "\<not> (\<lambda>c. c \<le> u) (last ?cdf)" using u by simp
  with ne have "length (takeWhile (\<lambda>c. c \<le> u) ?cdf) < length ?cdf"
    by (rule takeWhile_shorter)
  then have idx: "length (takeWhile (\<lambda>c. c \<le> u) ?cdf) < length a" using len by simp
  then have "np_choice g a p = Inr (a ! length (takeWhile (\<lambda>c. c \<le> u) ?cdf), g1)"
    using a len nonneg total r by (simp add: np_choice_def)
  then show ?thesis using idx by auto
qed

lemma np_choice_member:
  assumes "np_choice g a p = Inr (b, g')"
  shows "b \<in> set a"
proof -
  obtain u g1 where r: "rng_random g = (u, g1)" by (cases "rng_random g")
  show ?thesis
    using assms r by (auto simp: np_choice_def Let_def split: if_splits)
qed

lemma upto_nonempty: "1 \<le> n \<Longrightarrow> [1..n] \<noteq> []"
  by (simp add: upto.simps)

lemma random_bin_in_range:
  assumes "random_bin g base bins = Inr (b, g')"
  shows "1 \<le> b \<and> b \<le> bins"
proof -
  from assms have "np_choice g [1..bins]
      (map (\<lambda>w. w / sum_list
          (if base = ''Black'' then [25/100, 22/100, 18/100, 14/100, 10/100, 7/100, 4/100]
           else if base = ''White'' then [4/100, 7/100, 10/100, 14/100, 18/100, 22/100, 25/100]
           else replicate (nat bins) (1 / of_int bins)))
        (if base = ''Black'' then [25/100, 22/100, 18/100, 14/100, 10/100, 7/100, 4/100]
         else if base = ''White'' then [4/100, 7/100, 10/100, 14/100, 18/100, 22/100, 25/100]
         else replicate (nat bins) (1 / of_int bins))) = Inr (b, g')"
    by (simp add: random_bin_def Let_def split: if_splits)
  then have "b \<in> set [1..bins]" by (rule np_choice_member)
  then show ?thesis by simp
qed

lemma sum_list_replicate_real: "sum_list (replicate n (x::real)) = of_nat n * x"
  by (induction n) (simp_all add: algebra_simps)

lemma random_bin_returns_other:
  assumes bins: "1 \<le> bins" and base: "base \<noteq> ''Black''" "base \<noteq> ''White''"
  shows "\<exists>b g'. random_bin g base bins = Inr (b, g') \<and> 1 \<le> b \<and> b \<le> bins"
proof -
  let ?w = "replicate (nat bins) (1 / real_of_int bins)"
  let ?p = "map (\<lambda>w. w / sum_list ?w) ?w"
  have s: "sum_list ?w = 1" using bins by (simp add: sum_list_replicate_real)
  have p: "?p = ?w" by (simp add: s)
  have a: "[1..bins] \<noteq> []" using bins by (rule upto_nonempty)
  have len: "length ?p = length [1..bins]" using bins by simp
  have w0: "\<forall>x\<in>set ?w. 0 \<le> x" using bins by auto
  have nonneg: "\<not> list_ex (\<lambda>x. x < 0) ?p"
    unfolding p list_ex_iff using w0 by (auto simp: not_less)
  have total: "sum_list ?p = 1" using s by (simp add: p)
  from np_choice_returns [OF a len nonneg total, of g] obtain b g' where
    c: "np_choice g [1..bins] ?p = Inr (b, g')" by blast
  have rb: "random_bin g base bins = Inr (b, g')"
    using bins base c by (simp add: random_bin_def)
  then show ?thesis using random_bin_in_range [OF rb] by blast
qed

lemma random_bin_returns_seven:
  "\<exists>b g'. random_bin g base 7 = Inr (b, g') \<and> 1 \<le> b \<and> b \<le> 7"
proof (cases "base = ''Black'' \<or> base = ''White''")
  case False
  then show ?thesis using random_bin_returns_other [of 7 base g] by simp
next
  case True
  let ?wb = "[25/100, 22/100, 18/100, 14/100, 10/100, 7/100, 4/100] :: real list"
  let ?ww = "[4/100, 7/100, 10/100, 14/100, 18/100, 22/100, 25/100] :: real list"
  have a: "[1..(7::int)] \<noteq> []" by (simp add: upto_1_7)
  have lb: "length (map (\<lambda>w. w / sum_list ?wb) ?wb) = length [1..(7::int)]"
    by (simp add: upto_1_7)
  have lw: "length (map (\<lambda>w. w / sum_list ?ww) ?ww) = length [1..(7::int)]"
    by (simp add: upto_1_7)
  from True show ?thesis
  proof
    assume b: "base = ''Black''"
    from np_choice_returns [OF a lb, of g] obtain c g' where
      c: "np_choice g [1..7] (map (\<lambda>w. w / sum_list ?wb) ?wb) = Inr (c, g')"
      by auto
    have rb: "random_bin g base 7 = Inr (c, g')" using b c by (simp add: random_bin_def)
    then show ?thesis using random_bin_in_range [OF rb] by blast
  next
    assume w: "base = ''White''"
    from np_choice_returns [OF a lw, of g] obtain c g' where
      c: "np_choice g [1..7] (map (\<lambda>w. w / sum_list ?ww) ?ww) = Inr (c, g')"
      by auto
    have rb: "random_bin g base 7 = Inr (c, g')" using w c by (simp add: random_bin_def)
    then show ?thesis using random_bin_in_range [OF rb] by blast
  qed
qed

lemma brightness_to_bin_in_range:
  assumes "brightness_to_bin e p bins = Some b" "1 \<le> bins"
  shows "1 \<le> b \<and> b \<le> bins"
  using assms
  by (auto simp: brightness_to_bin_def np_clip_def Let_def split: if_splits option.splits)

lemma brightness_to_bin_none:
  assumes "\<not> PIL_OK e \<or> image_open e p = None
           \<or> (\<exists>im. image_open e p = Some im \<and> (im_w im < 10 \<or> im_h im < 10))"
  shows "brightness_to_bin e p bins = None"
  using assms by (auto simp: brightness_to_bin_def)

text \<open>
  Where the skin-tone block completes, what C1 asks for holds: the cell written is the text
  of an integer between 1 and N. The random strategy completes for seven bins, and for
  any positive N when the race is neither \<^verbatim>\<open>Black\<close> nor \<^verbatim>\<open>White\<close>.
\<close>

lemma skin_tone_bin_written_in_range:
  assumes f: "fill_skin_tone_bin e a row0 s = Inr s1"
    and mf: "must_fill e a row0 ''skin_tone_bin''"
    and n: "1 \<le> skin_bins a"
  shows "\<exists>b. cur_row s1 ''skin_tone_bin'' = PStr (str_int b) \<and> 1 \<le> b \<and> b \<le> skin_bins a"
proof (cases "brightness_attempt e a row0")
  case (Inl err)
  then show ?thesis using f mf by (simp add: fill_skin_tone_bin_def)
next
  case (Inr ob)
  show ?thesis
  proof (cases ob)
    case (Some b)
    then have "\<exists>p. brightness_to_bin e p (skin_bins a) = Some b"
      using Inr by (auto simp: brightness_attempt_def split: if_splits pyval.splits)
    then have "1 \<le> b \<and> b \<le> skin_bins a" using n brightness_to_bin_in_range by blast
    moreover have "cur_row s1 ''skin_tone_bin'' = PStr (str_int b)"
      using f mf Inr Some by (auto simp: fill_skin_tone_bin_def)
    ultimately show ?thesis by blast
  next
    case None
    then obtain b g where
      rb: "random_bin (rng_np s) (py_str e (row0 ''race_cat'')) (skin_bins a) = Inr (b, g)"
      and s1: "s1 = bump ''skin_tone_bin''
                      (set_cell ''skin_tone_bin'' (PStr (str_int b)) (s\<lparr>rng_np := g\<rparr>))"
      using f mf Inr
      by (cases "random_bin (rng_np s) (py_str e (row0 ''race_cat'')) (skin_bins a)")
        (auto simp: fill_skin_tone_bin_def)
    from random_bin_in_range [OF rb] s1 show ?thesis by auto
  qed
qed

text \<open>
  The fallback of C10 where it works: when the estimator gives no bin, the block is the
  random strategy.
\<close>

lemma fallback_is_random_strategy:
  assumes "brightness_attempt e a row0 = Inr None" "must_fill e a row0 ''skin_tone_bin''"
  shows "fill_skin_tone_bin e a row0 s =
           (case random_bin (rng_np s) (py_str e (row0 ''race_cat'')) (skin_bins a) of
              Inl err \<Rightarrow> Inl err
            | Inr (b, g) \<Rightarrow>
                Inr (bump ''skin_tone_bin''
                       (set_cell ''skin_tone_bin'' (PStr (str_int b)) (s\<lparr>rng_np := g\<rparr>))))"
  using assms by (simp add: fill_skin_tone_bin_def)

lemma brightness_attempt_none:
  assumes "row0 ''rel_path'' = PStr p" "brightness_to_bin e (resolve_path e p) (skin_bins a) = None"
  shows "brightness_attempt e a row0 = Inr None"
  using assms by (simp add: brightness_attempt_def)

section \<open>Remarks on blank cells\<close>

text \<open>
  The script's test for a blank cell reads the text of the cell. A NaN, which is what the
  CSV reader leaves in an empty cell of a column that exists, has the text \<^verbatim>\<open>nan\<close> and
  is not blank by that test; the empty string that \<^verbatim>\<open>safe_col\<close> puts in a column it
  adds is. Where the race confidence cell is not blank, line 172 takes its float.
\<close>

lemma nan_cell_not_blank: "\<not> blank e (PFloat NaN)"
  by (simp add: blank_def strip_def is_space_def)

lemma empty_text_blank: "blank e (PStr [])"
  by (simp add: blank_def strip_def)

lemma conf_val_float:
  "\<not> blank e (r ''conf_race'') \<Longrightarrow> conf_val e r = py_float e (r ''conf_race'')"
  by (simp add: conf_val_def)

end
